theory Spec2Isabelle
  imports Complex_Main
begin

section \<open>Descriptors: the input of the generator\<close>

text \<open>
  The generator reads descriptors of the protobuf compiler. A message descriptor is
  consulted for its name, the package of its file, the full name of its parent (the
  file, whose full name is the package, or the enclosing message) and whether it is
  the synthetic entry type of a map field. Descriptors form a graph (a message may
  have a field of its own type), so a message descriptor does not hold its fields.
\<close>

record message_desc =
  md_Name :: string
  md_Package :: string
  md_ParentFullName :: string
  md_IsMapEntry :: bool

text \<open>The full name of a message: the parent's full name, a dot, the name.\<close>

definition md_FullName :: "message_desc \<Rightarrow> string" where
  "md_FullName desc =
     (if md_ParentFullName desc = [] then md_Name desc
      else md_ParentFullName desc @ ''.'' @ md_Name desc)"

text \<open>
  The kinds of \<^verbatim>\<open>protoreflect.Kind\<close>. \<^verbatim>\<open>Message()\<close> is the message descriptor exactly
  for the kinds message and group, and \<^verbatim>\<open>Enum()\<close> the enum descriptor exactly for the
  kind enum; the constructors carry them (of the enum, the names of its values in
  declaration order), so a descriptor with a missing accessor cannot be written.
\<close>

datatype kind =
    BoolKind | EnumKind "string list"
  | Int32Kind | Sint32Kind | Uint32Kind | Int64Kind | Sint64Kind | Uint64Kind
  | Sfixed32Kind | Fixed32Kind | FloatKind | Sfixed64Kind | Fixed64Kind | DoubleKind
  | StringKind | BytesKind | MessageKind message_desc | GroupKind message_desc

fun kind_String :: "kind \<Rightarrow> string" where
  "kind_String BoolKind = ''bool''"
| "kind_String (EnumKind vs) = ''enum''"
| "kind_String Int32Kind = ''int32''"
| "kind_String Sint32Kind = ''sint32''"
| "kind_String Uint32Kind = ''uint32''"
| "kind_String Int64Kind = ''int64''"
| "kind_String Sint64Kind = ''sint64''"
| "kind_String Uint64Kind = ''uint64''"
| "kind_String Sfixed32Kind = ''sfixed32''"
| "kind_String Fixed32Kind = ''fixed32''"
| "kind_String FloatKind = ''float''"
| "kind_String Sfixed64Kind = ''sfixed64''"
| "kind_String Fixed64Kind = ''fixed64''"
| "kind_String DoubleKind = ''double''"
| "kind_String StringKind = ''string''"
| "kind_String BytesKind = ''bytes''"
| "kind_String (MessageKind d) = ''message''"
| "kind_String (GroupKind d) = ''group''"

text \<open>The values of the field-behavior annotation.\<close>

datatype field_behavior =
    FIELD_BEHAVIOR_UNSPECIFIED | OPTIONAL | REQUIRED | OUTPUT_ONLY | INPUT_ONLY
  | IMMUTABLE | UNORDERED_LIST | NON_EMPTY_DEFAULT | IDENTIFIER

text \<open>
  A field descriptor. \<^verbatim>\<open>IsMap()\<close> holds exactly when \<^verbatim>\<open>MapValue()\<close> is there, so the
  model keeps the optional value field only. \<open>fd_Behaviors\<close> is the value of the
  field-behavior extension of the field's options (empty when the option is unset).
\<close>

datatype field_desc = FieldDescriptor
  (fd_Name: string)
  (fd_JSONName: string)
  (fd_Kind: kind)
  (fd_IsList: bool)
  (fd_MapValue: "field_desc option")
  (fd_Behaviors: "field_behavior list")

definition fd_IsMap :: "field_desc \<Rightarrow> bool" where
  "fd_IsMap field = (fd_MapValue field \<noteq> None)"

text \<open>
  The plugin's view of a field, a oneof and a message (\<^verbatim>\<open>protogen\<close>). \<open>f_GoName\<close> is
  the name the plugin library derives for Go code, the camel-cased declared name
  (\<^verbatim>\<open>email\<close> becomes \<^verbatim>\<open>Email\<close>); \<open>f_Oneof\<close> is the name of the containing oneof, if any.
\<close>

record field =
  f_Desc :: field_desc
  f_GoName :: string
  f_Oneof :: "string option"
  f_Leading :: string

record oneof =
  o_Name :: string
  o_GoName :: string
  o_Fields :: "field list"

datatype message = Message
  (m_Desc: message_desc)
  (m_Leading: string)
  (m_Messages: "message list")
  (m_Oneofs: "oneof list")
  (m_Fields: "field list")

section \<open>JSON Schema nodes: the output of the generator\<close>

datatype string_or_string_array = String string | StringArray "string list"

datatype schema_enum_value = EnumString string | EnumBool bool

datatype yaml_node = ScalarNode string

datatype default_value =
    StringValue string | Int64Value int | Float64Value real | BooleanValue bool
  | ArrayValue "yaml_node list" | NullTag

text \<open>
  The keywords of a schema the generator writes; every one is optional (a nil pointer
  in the source). \<open>Items\<close> and \<open>AdditionalProperties\<close> are wrappers around a schema
  pointer that may itself be nil: \<open>Some None\<close> is a wrapper holding no schema.
\<close>

datatype schema = Schema
  (Schema': "string option")
  (ID: "string option")
  (Type: "string_or_string_array option")
  (Format: "string option")
  (Ref: "string option")
  (Properties: "named_schema list option")
  (Items: "schema option option")
  (OneOf: "schema list option")
  (Enumeration: "schema_enum_value list option")
  (Default: "default_value option")
  (Title: "string option")
  (Description: "string option")
  (ReadOnly: "bool option")
  (WriteOnly: "bool option")
  (AdditionalProperties: "schema option option")
  (Definitions: "named_schema list option")
and named_schema = NamedSchema (Name: string) (Value: schema)

section \<open>Library functions on strings\<close>

text \<open>
  A Go string is a sequence of bytes, here a list of \<^typ>\<open>char\<close>; \<^verbatim>\<open>len\<close> is
  \<^const>\<open>length\<close>. The functions of this section model the library calls of the
  generator (\<^verbatim>\<open>strings\<close>, \<^verbatim>\<open>regexp\<close>, \<^verbatim>\<open>unicode/utf8\<close>) on such byte strings.
\<close>

definition isPrefix :: "string \<Rightarrow> string \<Rightarrow> bool" where
  "isPrefix p s = (take (length p) s = p)"

definition isSuffix :: "string \<Rightarrow> string \<Rightarrow> bool" where
  "isSuffix p s = (length p \<le> length s \<and> drop (length s - length p) s = p)"

text \<open>
  \<^verbatim>\<open>strings.ToUpper\<close> and \<^verbatim>\<open>strings.ToLower\<close> of a string of one byte, the only
  strings the generator passes: an ASCII letter changes case, any other ASCII byte
  stays, and a byte that is not ASCII (alone it is invalid UTF-8) becomes the
  encoding of the replacement character U+FFFD.
\<close>

definition ToUpper_byte :: "char \<Rightarrow> string" where
  "ToUpper_byte c =
     (let n = (of_char c :: nat) in
      if n < 128 then (if 97 \<le> n \<and> n \<le> 122 then [char_of (n - 32)] else [c])
      else [CHR 0xEF, CHR 0xBF, CHR 0xBD])"

definition ToLower_byte :: "char \<Rightarrow> string" where
  "ToLower_byte c =
     (let n = (of_char c :: nat) in
      if n < 128 then (if 65 \<le> n \<and> n \<le> 90 then [char_of (n + 32)] else [c])
      else [CHR 0xEF, CHR 0xBF, CHR 0xBD])"

text \<open>\<^verbatim>\<open>strings.Replace(s, ".", "_", -1)\<close> and \<^verbatim>\<open>strings.Replace(s, "\n", "", -1)\<close>.\<close>

definition Replace_dot_underscore :: "string \<Rightarrow> string" where
  "Replace_dot_underscore s = map (\<lambda>c. if c = CHR ''.'' then CHR ''_'' else c) s"

definition Remove_newlines :: "string \<Rightarrow> string" where
  "Remove_newlines s = filter (\<lambda>c. c \<noteq> CHR 0x0A) s"

text \<open>The comparison \<^verbatim>\<open>a >= b\<close> of Go strings: lexical, byte by byte.\<close>

fun string_ge :: "string \<Rightarrow> string \<Rightarrow> bool" where
  "string_ge a [] = True"
| "string_ge [] (y # ys) = False"
| "string_ge (x # xs) (y # ys) =
     ((of_char y :: nat) < of_char x \<or> (x = y \<and> string_ge xs ys))"

text \<open>
  The width in bytes of the first UTF-8 encoded character of a string, as
  \<^verbatim>\<open>utf8.DecodeRuneInString\<close> reports it: an invalid or truncated encoding has width 1.
\<close>

definition cont :: "nat \<Rightarrow> nat \<Rightarrow> string \<Rightarrow> nat \<Rightarrow> bool" where
  "cont lo hi s i = (i < length s \<and> lo \<le> (of_char (s ! i) :: nat) \<and> (of_char (s ! i) :: nat) \<le> hi)"

definition runeWidth :: "string \<Rightarrow> nat" where
  "runeWidth s =
     (case s of [] \<Rightarrow> 0
      | c # cs \<Rightarrow>
         (let b = (of_char c :: nat) in
          if b < 0x80 then 1
          else if 0xC2 \<le> b \<and> b \<le> 0xDF then (if cont 0x80 0xBF s 1 then 2 else 1)
          else if b = 0xE0 then (if cont 0xA0 0xBF s 1 \<and> cont 0x80 0xBF s 2 then 3 else 1)
          else if b = 0xED then (if cont 0x80 0x9F s 1 \<and> cont 0x80 0xBF s 2 then 3 else 1)
          else if 0xE1 \<le> b \<and> b \<le> 0xEF then (if cont 0x80 0xBF s 1 \<and> cont 0x80 0xBF s 2 then 3 else 1)
          else if b = 0xF0 then
            (if cont 0x90 0xBF s 1 \<and> cont 0x80 0xBF s 2 \<and> cont 0x80 0xBF s 3 then 4 else 1)
          else if b = 0xF4 then
            (if cont 0x80 0x8F s 1 \<and> cont 0x80 0xBF s 2 \<and> cont 0x80 0xBF s 3 then 4 else 1)
          else if 0xF1 \<le> b \<and> b \<le> 0xF3 then
            (if cont 0x80 0xBF s 1 \<and> cont 0x80 0xBF s 2 \<and> cont 0x80 0xBF s 3 then 4 else 1)
          else 1))"

text \<open>
  \<^verbatim>\<open>strings.TrimSpace\<close>: the white space of Unicode is cut from both ends. The
  characters are the six of ASCII, U+0085, U+00A0, U+1680, U+2000 to U+200A, U+2028,
  U+2029, U+202F, U+205F and U+3000, listed here in their UTF-8 encodings.
\<close>

definition spaces :: "string list" where
  "spaces =
     [[CHR 0x09], [CHR 0x0A], [CHR 0x0B], [CHR 0x0C], [CHR 0x0D], [CHR 0x20],
      [CHR 0xC2, CHR 0x85], [CHR 0xC2, CHR 0xA0], [CHR 0xE1, CHR 0x9A, CHR 0x80],
      [CHR 0xE2, CHR 0x80, CHR 0x80], [CHR 0xE2, CHR 0x80, CHR 0x81],
      [CHR 0xE2, CHR 0x80, CHR 0x82], [CHR 0xE2, CHR 0x80, CHR 0x83],
      [CHR 0xE2, CHR 0x80, CHR 0x84], [CHR 0xE2, CHR 0x80, CHR 0x85],
      [CHR 0xE2, CHR 0x80, CHR 0x86], [CHR 0xE2, CHR 0x80, CHR 0x87],
      [CHR 0xE2, CHR 0x80, CHR 0x88], [CHR 0xE2, CHR 0x80, CHR 0x89],
      [CHR 0xE2, CHR 0x80, CHR 0x8A], [CHR 0xE2, CHR 0x80, CHR 0xA8],
      [CHR 0xE2, CHR 0x80, CHR 0xA9], [CHR 0xE2, CHR 0x80, CHR 0xAF],
      [CHR 0xE2, CHR 0x81, CHR 0x9F], [CHR 0xE3, CHR 0x80, CHR 0x80]]"

text \<open>The number of bytes of white space a string starts with, and ends with.\<close>

definition leadingSpace :: "string \<Rightarrow> nat" where
  "leadingSpace s = (case filter (\<lambda>p. isPrefix p s) spaces of [] \<Rightarrow> 0 | p # _ \<Rightarrow> length p)"

definition trailingSpace :: "string \<Rightarrow> nat" where
  "trailingSpace s = (case filter (\<lambda>p. isSuffix p s) spaces of [] \<Rightarrow> 0 | p # _ \<Rightarrow> length p)"

function TrimLeft :: "string \<Rightarrow> string" where
  "TrimLeft s = (if leadingSpace s = 0 then s else TrimLeft (drop (leadingSpace s) s))"
  by pat_completeness auto
termination
proof (relation "measure length")
  fix s :: string
  assume a: "leadingSpace s \<noteq> 0"
  have "s \<noteq> []"
  proof
    assume "s = []"
    then have "leadingSpace s = 0"
      by (simp add: leadingSpace_def isPrefix_def spaces_def)
    with a show False by simp
  qed
  with a show "(drop (leadingSpace s) s, s) \<in> measure length" by simp
qed simp

function TrimRight :: "string \<Rightarrow> string" where
  "TrimRight s =
     (if trailingSpace s = 0 then s else TrimRight (take (length s - trailingSpace s) s))"
  by pat_completeness auto
termination
proof (relation "measure length")
  fix s :: string
  assume a: "trailingSpace s \<noteq> 0"
  have "s \<noteq> []"
  proof
    assume "s = []"
    then have "trailingSpace s = 0"
      by (simp add: trailingSpace_def isSuffix_def spaces_def)
    with a show False by simp
  qed
  with a show "(take (length s - trailingSpace s) s, s) \<in> measure length" by simp
qed simp

definition TrimSpace :: "string \<Rightarrow> string" where
  "TrimSpace s = TrimRight (TrimLeft s)"

section \<open>The two regular expressions\<close>

text \<open>
  The linter rule pattern is \<^verbatim>\<open>\(-- .* --\)\<close>. A match starts at the leftmost
  \<^verbatim>\<open>(-- \<close> that is followed, later on its line, by \<^verbatim>\<open> --)\<close>; the star is greedy,
  so the match ends with the last \<^verbatim>\<open> --)\<close> of that line (the dot matches every
  character but the line feed). \<open>lastClose\<close> gives the offset just behind the last
  \<^verbatim>\<open> --)\<close> of a string, if there is one.
\<close>

fun lastClose :: "string \<Rightarrow> nat option" where
  "lastClose [] = None"
| "lastClose (c # cs) =
     (case lastClose cs of
        Some k \<Rightarrow> Some (Suc k)
      | None \<Rightarrow> if isPrefix '' --)'' (c # cs) then Some 4 else None)"

definition lineOf :: "string \<Rightarrow> string" where
  "lineOf s = takeWhile (\<lambda>c. c \<noteq> CHR 0x0A) s"

text \<open>The length of the match of the pattern at the start of a string, if it matches there.\<close>

definition linterMatch :: "string \<Rightarrow> nat option" where
  "linterMatch s =
     (if isPrefix ''(-- '' s then
        (case lastClose (lineOf (drop 4 s)) of Some k \<Rightarrow> Some (4 + k) | None \<Rightarrow> None)
      else None)"

text \<open>\<^verbatim>\<open>linterRulePattern.ReplaceAllString(s, "")\<close>: every match, left to right, is cut out.\<close>

function ReplaceAll_linter :: "string \<Rightarrow> string" where
  "ReplaceAll_linter [] = []"
| "ReplaceAll_linter (c # cs) =
     (case linterMatch (c # cs) of
        Some n \<Rightarrow> ReplaceAll_linter (drop n (c # cs))
      | None \<Rightarrow> c # ReplaceAll_linter cs)"
  by pat_completeness auto
termination
proof (relation "measure length")
  fix c :: char and cs :: string and n :: nat
  assume "linterMatch (c # cs) = Some n"
  then have "0 < n"
    by (auto simp: linterMatch_def split: if_splits option.splits)
  then show "(drop n (c # cs), c # cs) \<in> measure length" by simp
qed simp_all

text \<open>
  The schema version pattern is
  \<^verbatim>\<open>https*://json-schema.org/draft[/-]([^/]+)/schema\<close>. From a given start the match is
  forced: \<^verbatim>\<open>http\<close>, every following \<^verbatim>\<open>s\<close>, \<^verbatim>\<open>://json-schema\<close>, one character that is
  not a line feed (the dot is not escaped), \<^verbatim>\<open>org/draft\<close>, a slash or a dash, the
  longest nonempty run without a slash, which is the group, and \<^verbatim>\<open>/schema\<close>.
\<close>

definition expect :: "string \<Rightarrow> string \<Rightarrow> string option" where
  "expect p s = (if isPrefix p s then Some (drop (length p) s) else None)"

definition anyChar :: "string \<Rightarrow> string option" where
  "anyChar s =
     (case s of [] \<Rightarrow> None
      | c # cs \<Rightarrow> if c = CHR 0x0A then None else Some (drop (runeWidth s) s))"

definition slashOrDash :: "string \<Rightarrow> string option" where
  "slashOrDash s =
     (case s of [] \<Rightarrow> None
      | c # cs \<Rightarrow> if c = CHR ''/'' \<or> c = CHR ''-'' then Some cs else None)"

definition versionMatch :: "string \<Rightarrow> string option" where
  "versionMatch s =
     (case expect ''http'' s of None \<Rightarrow> None | Some s1 \<Rightarrow>
      case expect ''://json-schema'' (dropWhile (\<lambda>c. c = CHR ''s'') s1) of None \<Rightarrow> None | Some s2 \<Rightarrow>
      case anyChar s2 of None \<Rightarrow> None | Some s3 \<Rightarrow>
      case expect ''org/draft'' s3 of None \<Rightarrow> None | Some s4 \<Rightarrow>
      case slashOrDash s4 of None \<Rightarrow> None | Some s5 \<Rightarrow>
        (let group = takeWhile (\<lambda>c. c \<noteq> CHR ''/'') s5 in
         if group = [] then None
         else case expect ''/schema'' (drop (length group) s5) of
                None \<Rightarrow> None | Some s6 \<Rightarrow> Some group))"

text \<open>\<^verbatim>\<open>FindStringSubmatch\<close>, reduced to the group of the leftmost match.\<close>

fun FindStringSubmatch_version :: "string \<Rightarrow> string option" where
  "FindStringSubmatch_version [] = versionMatch []"
| "FindStringSubmatch_version (c # cs) =
     (case versionMatch (c # cs) of
        Some v \<Rightarrow> Some v
      | None \<Rightarrow> FindStringSubmatch_version cs)"

section \<open>Building schema nodes\<close>

text \<open>
  \<open>emptySchema\<close> is the Go value \<^verbatim>\<open>jsonschema.Schema{}\<close>; the functions \<open>with_\<close> set one
  keyword of a node, as a field of a composite literal or an assignment does.
\<close>

definition emptySchema :: schema where
  "emptySchema =
     Schema None None None None None None None None None None None None None None None None"

definition with_Schema :: "string \<Rightarrow> schema \<Rightarrow> schema" where
  "with_Schema v s =
     Schema (Some v) (ID s) (Type s) (Format s) (Ref s) (Properties s) (Items s) (OneOf s)
       (Enumeration s) (Default s) (Title s) (Description s) (ReadOnly s) (WriteOnly s)
       (AdditionalProperties s) (Definitions s)"

definition with_ID :: "string \<Rightarrow> schema \<Rightarrow> schema" where
  "with_ID v s =
     Schema (Schema' s) (Some v) (Type s) (Format s) (Ref s) (Properties s) (Items s) (OneOf s)
       (Enumeration s) (Default s) (Title s) (Description s) (ReadOnly s) (WriteOnly s)
       (AdditionalProperties s) (Definitions s)"

definition with_Type :: "string_or_string_array \<Rightarrow> schema \<Rightarrow> schema" where
  "with_Type v s =
     Schema (Schema' s) (ID s) (Some v) (Format s) (Ref s) (Properties s) (Items s) (OneOf s)
       (Enumeration s) (Default s) (Title s) (Description s) (ReadOnly s) (WriteOnly s)
       (AdditionalProperties s) (Definitions s)"

definition with_Format :: "string \<Rightarrow> schema \<Rightarrow> schema" where
  "with_Format v s =
     Schema (Schema' s) (ID s) (Type s) (Some v) (Ref s) (Properties s) (Items s) (OneOf s)
       (Enumeration s) (Default s) (Title s) (Description s) (ReadOnly s) (WriteOnly s)
       (AdditionalProperties s) (Definitions s)"

definition with_Ref :: "string \<Rightarrow> schema \<Rightarrow> schema" where
  "with_Ref v s =
     Schema (Schema' s) (ID s) (Type s) (Format s) (Some v) (Properties s) (Items s) (OneOf s)
       (Enumeration s) (Default s) (Title s) (Description s) (ReadOnly s) (WriteOnly s)
       (AdditionalProperties s) (Definitions s)"

definition with_Properties :: "named_schema list \<Rightarrow> schema \<Rightarrow> schema" where
  "with_Properties v s =
     Schema (Schema' s) (ID s) (Type s) (Format s) (Ref s) (Some v) (Items s) (OneOf s)
       (Enumeration s) (Default s) (Title s) (Description s) (ReadOnly s) (WriteOnly s)
       (AdditionalProperties s) (Definitions s)"

definition with_Items :: "schema option \<Rightarrow> schema \<Rightarrow> schema" where
  "with_Items v s =
     Schema (Schema' s) (ID s) (Type s) (Format s) (Ref s) (Properties s) (Some v) (OneOf s)
       (Enumeration s) (Default s) (Title s) (Description s) (ReadOnly s) (WriteOnly s)
       (AdditionalProperties s) (Definitions s)"

definition with_OneOf :: "schema list \<Rightarrow> schema \<Rightarrow> schema" where
  "with_OneOf v s =
     Schema (Schema' s) (ID s) (Type s) (Format s) (Ref s) (Properties s) (Items s) (Some v)
       (Enumeration s) (Default s) (Title s) (Description s) (ReadOnly s) (WriteOnly s)
       (AdditionalProperties s) (Definitions s)"

definition with_Enumeration :: "schema_enum_value list \<Rightarrow> schema \<Rightarrow> schema" where
  "with_Enumeration v s =
     Schema (Schema' s) (ID s) (Type s) (Format s) (Ref s) (Properties s) (Items s) (OneOf s)
       (Some v) (Default s) (Title s) (Description s) (ReadOnly s) (WriteOnly s)
       (AdditionalProperties s) (Definitions s)"

definition with_Default :: "default_value \<Rightarrow> schema \<Rightarrow> schema" where
  "with_Default v s =
     Schema (Schema' s) (ID s) (Type s) (Format s) (Ref s) (Properties s) (Items s) (OneOf s)
       (Enumeration s) (Some v) (Title s) (Description s) (ReadOnly s) (WriteOnly s)
       (AdditionalProperties s) (Definitions s)"

definition with_Title :: "string \<Rightarrow> schema \<Rightarrow> schema" where
  "with_Title v s =
     Schema (Schema' s) (ID s) (Type s) (Format s) (Ref s) (Properties s) (Items s) (OneOf s)
       (Enumeration s) (Default s) (Some v) (Description s) (ReadOnly s) (WriteOnly s)
       (AdditionalProperties s) (Definitions s)"

definition with_Description :: "string \<Rightarrow> schema \<Rightarrow> schema" where
  "with_Description v s =
     Schema (Schema' s) (ID s) (Type s) (Format s) (Ref s) (Properties s) (Items s) (OneOf s)
       (Enumeration s) (Default s) (Title s) (Some v) (ReadOnly s) (WriteOnly s)
       (AdditionalProperties s) (Definitions s)"

definition with_ReadOnly :: "bool \<Rightarrow> schema \<Rightarrow> schema" where
  "with_ReadOnly v s =
     Schema (Schema' s) (ID s) (Type s) (Format s) (Ref s) (Properties s) (Items s) (OneOf s)
       (Enumeration s) (Default s) (Title s) (Description s) (Some v) (WriteOnly s)
       (AdditionalProperties s) (Definitions s)"

definition with_WriteOnly :: "bool \<Rightarrow> schema \<Rightarrow> schema" where
  "with_WriteOnly v s =
     Schema (Schema' s) (ID s) (Type s) (Format s) (Ref s) (Properties s) (Items s) (OneOf s)
       (Enumeration s) (Default s) (Title s) (Description s) (ReadOnly s) (Some v)
       (AdditionalProperties s) (Definitions s)"

definition with_AdditionalProperties :: "schema option \<Rightarrow> schema \<Rightarrow> schema" where
  "with_AdditionalProperties v s =
     Schema (Schema' s) (ID s) (Type s) (Format s) (Ref s) (Properties s) (Items s) (OneOf s)
       (Enumeration s) (Default s) (Title s) (Description s) (ReadOnly s) (WriteOnly s)
       (Some v) (Definitions s)"

definition with_Definitions :: "named_schema list \<Rightarrow> schema \<Rightarrow> schema" where
  "with_Definitions v s =
     Schema (Schema' s) (ID s) (Type s) (Format s) (Ref s) (Properties s) (Items s) (OneOf s)
       (Enumeration s) (Default s) (Title s) (Description s) (ReadOnly s) (WriteOnly s)
       (AdditionalProperties s) (Some v)"

section \<open>The generator\<close>

text \<open>
  The configuration of one invocation. The plugin sets the base URL, the version (the
  value of \<^verbatim>\<open>$schema\<close>) and the naming from its flags, and the generator dereferences
  the three without a check; the enum type is the one pointer it tests for nil.
\<close>

record Configuration =
  BaseURL :: string
  Version :: string
  Naming :: string
  EnumType :: "string option"

record JSONSchemaGenerator =
  conf :: Configuration

definition NewJSONSchemaGenerator :: "Configuration \<Rightarrow> JSONSchemaGenerator" where
  "NewJSONSchemaGenerator c =
     (let baseURL = BaseURL c;
          baseURL = (if length baseURL > 0 \<and> drop (length baseURL - 1) baseURL \<noteq> ''/''
                     then baseURL @ ''/'' else baseURL)
      in \<lparr>conf = c\<lparr>BaseURL := baseURL\<rparr>\<rparr>)"

text \<open>
  What the generator writes with \<^verbatim>\<open>log.Printf\<close> is collected as a list of messages;
  a nil pointer dereference, the one way the code can panic, is an error value.
\<close>

type_synonym log = "string list"

datatype error = NilPointerDereference

definition typeString :: string where "typeString = ''string''"
definition typeNumber :: string where "typeNumber = ''number''"
definition typeInteger :: string where "typeInteger = ''integer''"
definition typeBoolean :: string where "typeBoolean = ''boolean''"
definition typeObject :: string where "typeObject = ''object''"
definition typeArray :: string where "typeArray = ''array''"
definition typeNull :: string where "typeNull = ''null''"
definition formatDate :: string where "formatDate = ''date''"
definition formatDateTime :: string where "formatDateTime = ''date-time''"
definition formatEnum :: string where "formatEnum = ''enum''"
definition formatBytes :: string where "formatBytes = ''bytes''"
definition emptyString :: string where "emptyString = []"
definition emptyInt64 :: int where "emptyInt64 = 0"
definition emptyFloat64 :: real where "emptyFloat64 = 0"
definition emptyBoolean :: bool where "emptyBoolean = False"
definition emptyArray :: "yaml_node list" where "emptyArray = []"

definition filterCommentString :: "JSONSchemaGenerator \<Rightarrow> string \<Rightarrow> bool \<Rightarrow> string" where
  "filterCommentString g c removeNewLines =
     (let comment = c;
          comment = (if removeNewLines then Remove_newlines comment else comment);
          comment = ReplaceAll_linter comment
      in TrimSpace comment)"

definition formatMessageNameString :: "JSONSchemaGenerator \<Rightarrow> string \<Rightarrow> string" where
  "formatMessageNameString g name =
     (if Naming (conf g) = ''proto'' then name
      else if length name > 1 then ToUpper_byte (hd name) @ drop 1 name
      else if length name = 1 then ToLower_byte (hd name)
      else name)"

definition formatOneofFieldName :: "JSONSchemaGenerator \<Rightarrow> oneof \<Rightarrow> string" where
  "formatOneofFieldName g oneof =
     (if Naming (conf g) = ''proto'' then o_Name oneof
      else let name = o_GoName oneof in
        if length name > 1 then ToLower_byte (hd name) @ drop 1 name
        else if length name = 1 then ToLower_byte (hd name)
        else name)"

definition formatFieldName :: "JSONSchemaGenerator \<Rightarrow> field \<Rightarrow> string" where
  "formatFieldName g field =
     (if Naming (conf g) = ''proto'' then fd_Name (f_Desc field)
      else fd_JSONName (f_Desc field))"

definition messageDefinitionName :: "message_desc \<Rightarrow> string" where
  "messageDefinitionName desc =
     (let name = md_Name desc;
          pkg = md_Package desc;
          parentName = md_ParentFullName desc;
          name = (if length parentName > length pkg
                  then drop (length pkg + 1) parentName @ ''.'' @ name else name)
      in Replace_dot_underscore name)"

definition schemaOrReferenceForType :: "JSONSchemaGenerator \<Rightarrow> message_desc \<Rightarrow> schema option" where
  "schemaOrReferenceForType g desc =
     (let typeName = ''.'' @ md_Package desc @ ''.'' @ md_Name desc in
      if typeName = ''.google.protobuf.Timestamp'' then
        Some (with_Format formatDateTime (with_Type (String typeString) emptySchema))
      else if typeName = ''.google.type.Date'' then
        Some (with_Format formatDate (with_Type (String typeString) emptySchema))
      else if typeName = ''.google.type.DateTime'' then
        Some (with_Format formatDateTime (with_Type (String typeString) emptySchema))
      else if typeName = ''.google.protobuf.Struct'' then
        Some (with_Type (String typeObject) emptySchema)
      else if typeName = ''.google.protobuf.Value'' then
        Some (with_Type
          (StringArray [typeString, typeNumber, typeInteger, typeBoolean, typeObject, typeArray])
          emptySchema)
      else if typeName = ''.google.protobuf.Empty'' then None
      else
        let typeName = messageDefinitionName desc;
            ref = formatMessageNameString g typeName @ ''.json''
        in Some (with_Ref ref emptySchema))"

text \<open>
  The end of \<^verbatim>\<open>schemaOrReferenceForField\<close>: a list field wraps the schema of its kind,
  which is nil after the default branch of the switch.
\<close>

definition listOrKindSchema :: "bool \<Rightarrow> schema option \<Rightarrow> schema option" where
  "listOrKindSchema isList kindSchema =
     (if isList then
        Some (with_Default (ArrayValue emptyArray)
               (with_Items kindSchema (with_Type (String ''array'') emptySchema)))
      else kindSchema)"

definition integerSchema :: "kind \<Rightarrow> schema" where
  "integerSchema kind =
     with_Default (Int64Value emptyInt64)
       (with_Format (kind_String kind) (with_Type (String typeInteger) emptySchema))"

definition numberSchema :: "kind \<Rightarrow> schema" where
  "numberSchema kind =
     with_Default (Float64Value emptyFloat64)
       (with_Format (kind_String kind) (with_Type (String typeNumber) emptySchema))"

text \<open>
  The enum branch. In string mode the loop appends the name of every value and sets
  the default at the first one, so an enum without values keeps no default.
\<close>

definition enumSchema :: "JSONSchemaGenerator \<Rightarrow> string list \<Rightarrow> schema" where
  "enumSchema g values =
     (let kindSchema = with_Format formatEnum emptySchema in
      if EnumType (conf g) \<noteq> None \<and> EnumType (conf g) = Some typeString then
        (let kindSchema = with_Type (String typeString) kindSchema;
             kindSchema = with_Enumeration (map EnumString values) kindSchema
         in case values of [] \<Rightarrow> kindSchema
            | name # _ \<Rightarrow> with_Default (StringValue name) kindSchema)
      else
        with_Default (Int64Value emptyInt64) (with_Type (String typeInteger) kindSchema))"

text \<open>
  The parameter \<^verbatim>\<open>definitions\<close> of the source is passed along and never read; the
  model leaves it out. The result is the log and the node, \<open>None\<close> for nil.
\<close>

fun schemaOrReferenceForField :: "JSONSchemaGenerator \<Rightarrow> field_desc \<Rightarrow> log \<times> schema option" where
  "schemaOrReferenceForField g (FieldDescriptor name jsonName kind isList (Some mapValue) behaviors) =
     (let (l, valueSchema) = schemaOrReferenceForField g mapValue in
      (l, Some (with_AdditionalProperties valueSchema (with_Type (String ''object'') emptySchema))))"
| "schemaOrReferenceForField g (FieldDescriptor name jsonName kind isList None behaviors) =
     (case kind of
        MessageKind desc \<Rightarrow>
          (case schemaOrReferenceForType g desc of
             None \<Rightarrow> ([], None)
           | Some kindSchema \<Rightarrow> ([], listOrKindSchema isList (Some kindSchema)))
      | StringKind \<Rightarrow>
          ([], listOrKindSchema isList
             (Some (with_Default (StringValue emptyString)
                     (with_Type (String typeString) emptySchema))))
      | Int32Kind \<Rightarrow> ([], listOrKindSchema isList (Some (integerSchema kind)))
      | Sint32Kind \<Rightarrow> ([], listOrKindSchema isList (Some (integerSchema kind)))
      | Uint32Kind \<Rightarrow> ([], listOrKindSchema isList (Some (integerSchema kind)))
      | Int64Kind \<Rightarrow> ([], listOrKindSchema isList (Some (integerSchema kind)))
      | Sint64Kind \<Rightarrow> ([], listOrKindSchema isList (Some (integerSchema kind)))
      | Uint64Kind \<Rightarrow> ([], listOrKindSchema isList (Some (integerSchema kind)))
      | Sfixed32Kind \<Rightarrow> ([], listOrKindSchema isList (Some (integerSchema kind)))
      | Fixed32Kind \<Rightarrow> ([], listOrKindSchema isList (Some (integerSchema kind)))
      | Sfixed64Kind \<Rightarrow> ([], listOrKindSchema isList (Some (integerSchema kind)))
      | Fixed64Kind \<Rightarrow> ([], listOrKindSchema isList (Some (integerSchema kind)))
      | EnumKind values \<Rightarrow> ([], listOrKindSchema isList (Some (enumSchema g values)))
      | BoolKind \<Rightarrow>
          ([], listOrKindSchema isList
             (Some (with_Default (BooleanValue emptyBoolean)
                     (with_Type (String typeBoolean) emptySchema))))
      | FloatKind \<Rightarrow> ([], listOrKindSchema isList (Some (numberSchema kind)))
      | DoubleKind \<Rightarrow> ([], listOrKindSchema isList (Some (numberSchema kind)))
      | BytesKind \<Rightarrow>
          ([], listOrKindSchema isList
             (Some (with_Default (StringValue emptyString)
                     (with_Format formatBytes (with_Type (String typeString) emptySchema)))))
      | GroupKind desc \<Rightarrow>
          ([''(TODO) Unsupported field type: '' @ md_FullName desc],
           listOrKindSchema isList None))"

definition getSchemaVersion :: "schema \<Rightarrow> error + string" where
  "getSchemaVersion schema =
     (case Schema' schema of
        None \<Rightarrow> Inl NilPointerDereference
      | Some schemaSchema \<Rightarrow>
          (case FindStringSubmatch_version schemaSchema of
             Some v \<Rightarrow> Inr v
           | None \<Rightarrow> Inr []))"

text \<open>The loop over the values of the field-behavior annotation.\<close>

fun fieldBehaviors :: "field_behavior list \<Rightarrow> schema \<Rightarrow> schema" where
  "fieldBehaviors [] fieldSchema = fieldSchema"
| "fieldBehaviors (vv # v) fieldSchema =
     fieldBehaviors v
       (if vv = OUTPUT_ONLY then with_ReadOnly True fieldSchema
        else if vv = INPUT_ONLY then with_WriteOnly True fieldSchema
        else fieldSchema)"

text \<open>
  \<^verbatim>\<open>namedSchemaForField\<close> in two parts. \<open>fieldProperty\<close> is what the source does with
  the node of the field once the version of the owning document is read: the
  read-only and write-only marks, the name, the title and the description. The
  extension read from the options always has the type of a list of behaviors, so the
  branch of the source that logs an unsupported extension type is never taken.
\<close>

definition fieldProperty ::
  "JSONSchemaGenerator \<Rightarrow> field \<Rightarrow> string \<Rightarrow> bool \<Rightarrow> schema \<Rightarrow> named_schema" where
  "fieldProperty g field version isValueProp fieldSchema =
     (let fieldSchema = (if string_ge version ''07''
                         then fieldBehaviors (fd_Behaviors (f_Desc field)) fieldSchema
                         else fieldSchema);
          fieldName = (if \<not> isValueProp then formatFieldName g field else ''value'');
          fieldSchema = (if Ref fieldSchema = None then with_Title fieldName fieldSchema
                         else fieldSchema);
          description = filterCommentString g (f_Leading field) True;
          fieldSchema = (if description \<noteq> [] then with_Description description fieldSchema
                         else fieldSchema)
      in NamedSchema fieldName fieldSchema)"

definition namedSchemaForField ::
  "JSONSchemaGenerator \<Rightarrow> field \<Rightarrow> named_schema \<Rightarrow> bool \<Rightarrow> error + (log \<times> named_schema option)" where
  "namedSchemaForField g field schema isValueProp =
     (case schemaOrReferenceForField g (f_Desc field) of
        (l, None) \<Rightarrow> Inr (l, None)
      | (l, Some fieldSchema) \<Rightarrow>
          (case getSchemaVersion (Value schema) of
             Inl e \<Rightarrow> Inl e
           | Inr version \<Rightarrow>
               Inr (l, Some (fieldProperty g field version isValueProp fieldSchema))))"

definition setupSchemaForMessage :: "JSONSchemaGenerator \<Rightarrow> string \<Rightarrow> string \<Rightarrow> named_schema" where
  "setupSchemaForMessage g schemaName comments =
     (let typ = ''object'';
          id = BaseURL (conf g) @ schemaName @ ''.json'';
          schema = with_Properties [] (with_Title schemaName (with_Type (String typ)
                     (with_ID id (with_Schema (Version (conf g)) emptySchema))));
          description = filterCommentString g comments True
      in NamedSchema schemaName
           (if description \<noteq> [] then with_Description description schema else schema))"

definition buildKindProperty :: "JSONSchemaGenerator \<Rightarrow> string \<Rightarrow> named_schema" where
  "buildKindProperty g propertyValue =
     (let kind = ''kind'' in
      NamedSchema kind
        (with_Enumeration ([] @ [EnumString propertyValue])
          (with_Default (StringValue propertyValue)
            (with_Type (String typeString) (with_Title kind emptySchema)))))"

text \<open>
  Appending to \<^verbatim>\<open>*schema.Value.Properties\<close> dereferences the pointer, which panics
  when it is nil; the definitions are created on first use.
\<close>

definition appendProperty :: "named_schema \<Rightarrow> named_schema \<Rightarrow> error + named_schema" where
  "appendProperty property schema =
     (case Properties (Value schema) of
        None \<Rightarrow> Inl NilPointerDereference
      | Some properties \<Rightarrow>
          Inr (NamedSchema (Name schema) (with_Properties (properties @ [property]) (Value schema))))"

definition appendDefinition :: "named_schema \<Rightarrow> named_schema \<Rightarrow> named_schema" where
  "appendDefinition definition schema =
     (let definitions = (case Definitions (Value schema) of None \<Rightarrow> [] | Some ds \<Rightarrow> ds)
      in NamedSchema (Name schema) (with_Definitions (definitions @ [definition]) (Value schema)))"

text \<open>
  The body of the inner loop of \<^verbatim>\<open>addOneofFieldsToSchema\<close>, for one member field. The
  state of the loop is the log, the union list of the oneof and the owning document.
\<close>

definition oneofField ::
  "JSONSchemaGenerator \<Rightarrow> field \<Rightarrow> log \<times> schema list \<times> named_schema \<Rightarrow>
   error + (log \<times> schema list \<times> named_schema)" where
  "oneofField g fieldProto st =
     (case st of (logs, oneOf, schema) \<Rightarrow>
        (let ref = Name schema @ ''_'' @ f_GoName fieldProto;
             oneofFieldSchema = NamedSchema ref
               (with_Properties [] (with_Title ref (with_Type (String typeObject) emptySchema)));
             kindProperty = buildKindProperty g (fd_Name (f_Desc fieldProto))
         in case namedSchemaForField g fieldProto schema True of
              Inl e \<Rightarrow> Inl e
            | Inr (l, None) \<Rightarrow> Inr (logs @ l, oneOf, schema)
            | Inr (l, Some actualProperty) \<Rightarrow>
                (let oneofFieldSchema = NamedSchema (Name oneofFieldSchema)
                       (with_Properties [kindProperty, actualProperty] (Value oneofFieldSchema));
                     schema = appendDefinition oneofFieldSchema schema;
                     definitionsRef = ''#/definitions/'' @ ref
                 in Inr (logs @ l, oneOf @ [with_Ref definitionsRef emptySchema], schema))))"

fun oneofFields ::
  "JSONSchemaGenerator \<Rightarrow> field list \<Rightarrow> log \<times> schema list \<times> named_schema \<Rightarrow>
   error + (log \<times> schema list \<times> named_schema)" where
  "oneofFields g [] st = Inr st"
| "oneofFields g (fieldProto # rest) st =
     (case oneofField g fieldProto st of
        Inl e \<Rightarrow> Inl e
      | Inr st' \<Rightarrow> oneofFields g rest st')"

text \<open>The body of the outer loop, for one oneof; the state is the log and the document.\<close>

definition oneofSchema ::
  "JSONSchemaGenerator \<Rightarrow> oneof \<Rightarrow> log \<times> named_schema \<Rightarrow> error + (log \<times> named_schema)" where
  "oneofSchema g oneOfProto st =
     (case st of (logs, schema) \<Rightarrow>
        (let oneOf = [] @ [with_Type (String typeNull) emptySchema] in
         case oneofFields g (o_Fields oneOfProto) (logs, oneOf, schema) of
           Inl e \<Rightarrow> Inl e
         | Inr (logs, oneOf, schema) \<Rightarrow>
             (let oneOfSchema = with_Default NullTag (with_OneOf oneOf emptySchema) in
              case appendProperty (NamedSchema (formatOneofFieldName g oneOfProto) oneOfSchema) schema of
                Inl e \<Rightarrow> Inl e
              | Inr schema \<Rightarrow> Inr (logs, schema))))"

fun addOneofFieldsToSchema ::
  "JSONSchemaGenerator \<Rightarrow> oneof list \<Rightarrow> log \<times> named_schema \<Rightarrow> error + (log \<times> named_schema)" where
  "addOneofFieldsToSchema g [] st = Inr st"
| "addOneofFieldsToSchema g (oneOfProto # oneofs) st =
     (case oneofSchema g oneOfProto st of
        Inl e \<Rightarrow> Inl e
      | Inr st' \<Rightarrow> addOneofFieldsToSchema g oneofs st')"

text \<open>The loop of \<^verbatim>\<open>buildSchemasFromMessages\<close> over the fields of one message.\<close>

fun plainFields ::
  "JSONSchemaGenerator \<Rightarrow> field list \<Rightarrow> log \<times> named_schema \<Rightarrow> error + (log \<times> named_schema)" where
  "plainFields g [] st = Inr st"
| "plainFields g (field # rest) (logs, schema) =
     (if f_Oneof field \<noteq> None then plainFields g rest (logs, schema)
      else case namedSchemaForField g field schema False of
             Inl e \<Rightarrow> Inl e
           | Inr (l, None) \<Rightarrow> plainFields g rest (logs @ l, schema)
           | Inr (l, Some namedSchema) \<Rightarrow>
               (case appendProperty namedSchema schema of
                  Inl e \<Rightarrow> Inl e
                | Inr schema \<Rightarrow> plainFields g rest (logs @ l, schema)))"

text \<open>
  What one round of the loop over the messages does after the nested messages: the
  document of the message itself, or none for the entry type of a map field.
\<close>

definition messageSchema ::
  "JSONSchemaGenerator \<Rightarrow> message \<Rightarrow> error + (log \<times> named_schema list)" where
  "messageSchema g message =
     (let schemaName = messageDefinitionName (m_Desc message);
          schema = setupSchemaForMessage g schemaName (m_Leading message)
      in if md_IsMapEntry (m_Desc message) then Inr ([], [])
         else case addOneofFieldsToSchema g (m_Oneofs message) ([], schema) of
                Inl e \<Rightarrow> Inl e
              | Inr st \<Rightarrow>
                  (case plainFields g (m_Fields message) st of
                     Inl e \<Rightarrow> Inl e
                   | Inr (logs, schema) \<Rightarrow> Inr (logs, [schema])))"

text \<open>
  \<^verbatim>\<open>buildSchemasFromMessages\<close>: for every message the schemas of the nested messages,
  each built by a call on the list of that one message, then the schema of the
  message. \<open>subMessages\<close> is the loop over \<^verbatim>\<open>message.Messages\<close>.
\<close>

function buildSchemasFromMessages ::
      "JSONSchemaGenerator \<Rightarrow> message list \<Rightarrow> error + (log \<times> named_schema list)"
  and subMessages ::
      "JSONSchemaGenerator \<Rightarrow> message list \<Rightarrow> error + (log \<times> named_schema list)" where
  "buildSchemasFromMessages g [] = Inr ([], [])"
| "buildSchemasFromMessages g (message # messages) =
     (case subMessages g (m_Messages message) of
        Inl e \<Rightarrow> Inl e
      | Inr (l1, subSchemas) \<Rightarrow>
          (case messageSchema g message of
             Inl e \<Rightarrow> Inl e
           | Inr (l2, schema) \<Rightarrow>
               (case buildSchemasFromMessages g messages of
                  Inl e \<Rightarrow> Inl e
                | Inr (l3, schemas) \<Rightarrow> Inr (l1 @ l2 @ l3, subSchemas @ schema @ schemas))))"
| "subMessages g [] = Inr ([], [])"
| "subMessages g (subMessage # rest) =
     (case buildSchemasFromMessages g [subMessage] of
        Inl e \<Rightarrow> Inl e
      | Inr (l1, subSchemas) \<Rightarrow>
          (case subMessages g rest of
             Inl e \<Rightarrow> Inl e
           | Inr (l2, schemas) \<Rightarrow> Inr (l1 @ l2, subSchemas @ schemas)))"
  by pat_completeness auto
termination
proof (relation "measure (case_sum (\<lambda>p. 2 * size_list size (snd p))
                                   (\<lambda>p. 2 * size_list size (snd p) + 1))")
  fix g :: JSONSchemaGenerator and message :: message and messages :: "message list"
  have "size_list size (m_Messages message) < size message"
    by (cases message) simp
  then show "(Inr (g, m_Messages message), Inl (g, message # messages))
      \<in> measure (case_sum (\<lambda>p. 2 * size_list size (snd p))
                            (\<lambda>p. 2 * size_list size (snd p) + 1))"
    by simp
qed simp_all

section \<open>Properties of the input that the theorems speak about\<close>

text \<open>
  A message of the package \<open>pkg\<close>, which is not empty: its name has no dot, and the full
  name of its parent is the package (a message at the top of its file) or the package,
  a dot and the names of the enclosing messages.
\<close>

definition inPackage :: "string \<Rightarrow> message_desc \<Rightarrow> bool" where
  "inPackage pkg desc =
     (pkg \<noteq> [] \<and> md_Package desc = pkg \<and> CHR ''.'' \<notin> set (md_Name desc) \<and>
      (md_ParentFullName desc = pkg \<or>
       (isPrefix (pkg @ ''.'') (md_ParentFullName desc) \<and>
        length pkg + 1 < length (md_ParentFullName desc))))"

text \<open>
  No underscore in the name of the message nor in the names of the enclosing messages.
\<close>

definition noUnderscore :: "message_desc \<Rightarrow> bool" where
  "noUnderscore desc =
     (CHR ''_'' \<notin> set (md_Name desc) \<and>
      CHR ''_'' \<notin> set (drop (length (md_Package desc)) (md_ParentFullName desc)))"

text \<open>
  A node as the mapping of a field leaves it: no title, no description, no access mark.
\<close>

definition unmarked :: "schema \<Rightarrow> bool" where
  "unmarked s = (Title s = None \<and> Description s = None \<and> ReadOnly s = None \<and> WriteOnly s = None)"

text \<open>
  The field is mapped to a node, not to nil.
\<close>

definition mapsToNode :: "JSONSchemaGenerator \<Rightarrow> field \<Rightarrow> bool" where
  "mapsToNode g f = (snd (schemaOrReferenceForField g (f_Desc f)) \<noteq> None)"

section \<open>The loops in closed form\<close>

text \<open>
  What the loops of the generator compute, written without loops and without error
  values; the lemmas below prove that the loops compute exactly this. \<open>extendSchema\<close>
  appends properties and definitions to a document whose properties are there.
\<close>

definition definitionsOf :: "named_schema \<Rightarrow> named_schema list" where
  "definitionsOf schema = (case Definitions (Value schema) of None \<Rightarrow> [] | Some ds \<Rightarrow> ds)"

definition extendSchema ::
  "named_schema list \<Rightarrow> named_schema list \<Rightarrow> named_schema \<Rightarrow> named_schema" where
  "extendSchema ps ds schema =
     (let v = Value schema in
      NamedSchema (Name schema)
        (Schema (Schema' v) (ID v) (Type v) (Format v) (Ref v)
           (map_option (\<lambda>old. old @ ps) (Properties v)) (Items v) (OneOf v)
           (Enumeration v) (Default v) (Title v) (Description v) (ReadOnly v) (WriteOnly v)
           (AdditionalProperties v)
           (if ds = [] then Definitions v else Some (definitionsOf schema @ ds))))"

text \<open>
  A member field of a oneof in the document \<open>docName\<close>: the name of its definition, the
  reference to it, and the definition, which exists when the field is mapped to a node.
\<close>

definition memberName :: "string \<Rightarrow> field \<Rightarrow> string" where
  "memberName docName f = docName @ ''_'' @ f_GoName f"

definition memberReference :: "string \<Rightarrow> field \<Rightarrow> schema" where
  "memberReference docName f = with_Ref (''#/definitions/'' @ memberName docName f) emptySchema"

definition memberDefinition ::
  "JSONSchemaGenerator \<Rightarrow> string \<Rightarrow> string \<Rightarrow> field \<Rightarrow> named_schema option" where
  "memberDefinition g docName version f =
     (case snd (schemaOrReferenceForField g (f_Desc f)) of
        None \<Rightarrow> None
      | Some fieldSchema \<Rightarrow>
          Some (NamedSchema (memberName docName f)
            (with_Properties
               [buildKindProperty g (fd_Name (f_Desc f)), fieldProperty g f version True fieldSchema]
               (with_Title (memberName docName f) (with_Type (String typeObject) emptySchema)))))"

definition memberDefinitions ::
  "JSONSchemaGenerator \<Rightarrow> string \<Rightarrow> string \<Rightarrow> field list \<Rightarrow> named_schema list" where
  "memberDefinitions g docName version fs = List.map_filter (memberDefinition g docName version) fs"

text \<open>
  The property of a oneof: the null type, then the references to the members that are mapped.
\<close>

definition oneofAlternatives :: "JSONSchemaGenerator \<Rightarrow> string \<Rightarrow> oneof \<Rightarrow> schema list" where
  "oneofAlternatives g docName oneOfProto =
     with_Type (String typeNull) emptySchema
       # map (memberReference docName) (filter (mapsToNode g) (o_Fields oneOfProto))"

definition oneofProperty :: "JSONSchemaGenerator \<Rightarrow> string \<Rightarrow> oneof \<Rightarrow> named_schema" where
  "oneofProperty g docName oneOfProto =
     NamedSchema (formatOneofFieldName g oneOfProto)
       (with_Default NullTag (with_OneOf (oneofAlternatives g docName oneOfProto) emptySchema))"

text \<open>
  The property of a field outside of every oneof, when the field is mapped to a node.
\<close>

definition plainProperty :: "JSONSchemaGenerator \<Rightarrow> string \<Rightarrow> field \<Rightarrow> named_schema option" where
  "plainProperty g version f =
     (if f_Oneof f \<noteq> None then None
      else map_option (fieldProperty g f version False)
             (snd (schemaOrReferenceForField g (f_Desc f))))"

definition plainProperties :: "JSONSchemaGenerator \<Rightarrow> string \<Rightarrow> field list \<Rightarrow> named_schema list" where
  "plainProperties g version fs = List.map_filter (plainProperty g version) fs"

text \<open>
  The version that \<open>getSchemaVersion\<close> reads from the documents of a generator, and the
  document of a message: the properties of its oneofs, then those of its plain fields.
\<close>

definition draftVersion :: "JSONSchemaGenerator \<Rightarrow> string" where
  "draftVersion g =
     (case FindStringSubmatch_version (Version (conf g)) of Some v \<Rightarrow> v | None \<Rightarrow> [])"

definition messageDocument :: "JSONSchemaGenerator \<Rightarrow> message \<Rightarrow> named_schema" where
  "messageDocument g m =
     (let name = messageDefinitionName (m_Desc m) in
      extendSchema
        (map (oneofProperty g name) (m_Oneofs m) @ plainProperties g (draftVersion g) (m_Fields m))
        (concat (map (\<lambda>oneOfProto. memberDefinitions g name (draftVersion g) (o_Fields oneOfProto))
           (m_Oneofs m)))
        (setupSchemaForMessage g name (m_Leading m)))"

text \<open>
  The order of the result as the specification words it: depth first, the documents
  of the nested messages before the document of the message itself.
\<close>

fun depthFirst :: "JSONSchemaGenerator \<Rightarrow> message \<Rightarrow> named_schema list" where
  "depthFirst g (Message desc leading nested oneofs flds) =
     concat (map (depthFirst g) nested)
       @ (if md_IsMapEntry desc then [] else [messageDocument g (Message desc leading nested oneofs flds)])"

section \<open>Example inputs\<close>

text \<open>
  A generator for the draft 07 with the naming \<^verbatim>\<open>json\<close> and the enum type
  \<^verbatim>\<open>integer\<close>, one for the draft 04 with the enum type \<^verbatim>\<open>string\<close>, and descriptors
  of a small library: a message \<^verbatim>\<open>Book\<close> with a oneof \<^verbatim>\<open>contact\<close> of two strings, a oneof whose only
  member has the empty well-known type, a field that refers to a message \<^verbatim>\<open>Author\<close>, and a
  repeated group.
\<close>

definition exampleGenerator :: JSONSchemaGenerator where
  "exampleGenerator = NewJSONSchemaGenerator
     \<lparr>BaseURL = ''https://example.com/schemas'',
      Version = ''http://json-schema.org/draft-07/schema#'',
      Naming = ''json'', EnumType = Some ''integer''\<rparr>"

definition draft04Generator :: JSONSchemaGenerator where
  "draft04Generator = NewJSONSchemaGenerator
     \<lparr>BaseURL = ''https://example.com/schemas'',
      Version = ''http://json-schema.org/draft-04/schema#'',
      Naming = ''json'', EnumType = Some ''string''\<rparr>"

definition topLevel :: "string \<Rightarrow> string \<Rightarrow> message_desc" where
  "topLevel pkg name =
     \<lparr>md_Name = name, md_Package = pkg, md_ParentFullName = pkg, md_IsMapEntry = False\<rparr>"

definition exampleField :: "string \<Rightarrow> string \<Rightarrow> kind \<Rightarrow> field" where
  "exampleField name goName kind =
     \<lparr>f_Desc = FieldDescriptor name name kind False None [],
      f_GoName = goName, f_Oneof = None, f_Leading = []\<rparr>"

definition contact :: oneof where
  "contact =
     \<lparr>o_Name = ''contact'', o_GoName = ''Contact'',
      o_Fields = [exampleField ''email'' ''Email'' StringKind\<lparr>f_Oneof := Some ''contact''\<rparr>,
                  exampleField ''phone'' ''Phone'' StringKind\<lparr>f_Oneof := Some ''contact''\<rparr>]\<rparr>"

definition outcome :: oneof where
  "outcome =
     \<lparr>o_Name = ''outcome'', o_GoName = ''Outcome'',
      o_Fields = [exampleField ''done'' ''Done''
                    (MessageKind (topLevel ''google.protobuf'' ''Empty''))\<lparr>f_Oneof := Some ''outcome''\<rparr>]\<rparr>"

definition bookDocument :: named_schema where
  "bookDocument = setupSchemaForMessage exampleGenerator ''Book'' []"

definition draft04Document :: named_schema where
  "draft04Document = setupSchemaForMessage draft04Generator ''Book'' []"

definition authorField :: field where
  "authorField =
     \<lparr>f_Desc = FieldDescriptor ''author'' ''author'' (MessageKind (topLevel ''lib'' ''Author''))
                 False None [OUTPUT_ONLY],
      f_GoName = ''Author'', f_Oneof = None,
      f_Leading = '' The author.'' @ [CHR 0x0A]\<rparr>"

definition itemsField :: field where
  "itemsField =
     \<lparr>f_Desc = FieldDescriptor ''items'' ''items''
                 (GroupKind \<lparr>md_Name = ''Items'', md_Package = ''lib'',
                             md_ParentFullName = ''lib.Book'', md_IsMapEntry = False\<rparr>)
                 True None [],
      f_GoName = ''Items'', f_Oneof = None, f_Leading = []\<rparr>"

definition bookWithGroup :: message where
  "bookWithGroup =
     Message (topLevel ''lib'' ''Book'') []
       [Message \<lparr>md_Name = ''Items'', md_Package = ''lib'',
                 md_ParentFullName = ''lib.Book'', md_IsMapEntry = False\<rparr> [] [] [] []]
       [] [itemsField]"

definition library :: message where
  "library =
     Message (topLevel ''lib'' ''Book'') []
       [Message \<lparr>md_Name = ''Chapter'', md_Package = ''lib'',
                 md_ParentFullName = ''lib.Book'', md_IsMapEntry = False\<rparr> [] [] []
          [exampleField ''heading'' ''Heading'' StringKind]]
       [contact]
       [exampleField ''title'' ''Title'' StringKind,
        exampleField ''email'' ''Email'' StringKind\<lparr>f_Oneof := Some ''contact''\<rparr>,
        exampleField ''phone'' ''Phone'' StringKind\<lparr>f_Oneof := Some ''contact''\<rparr>,
        authorField]"

section \<open>Lemmas\<close>

lemmas with_defs =
  with_Schema_def with_ID_def with_Type_def with_Format_def with_Ref_def with_Properties_def
  with_Items_def with_OneOf_def with_Enumeration_def with_Default_def with_Title_def
  with_Description_def with_ReadOnly_def with_WriteOnly_def with_AdditionalProperties_def
  with_Definitions_def

subsection \<open>Document names\<close>

lemma Replace_dot_underscore_inj:
  "CHR ''_'' \<notin> set a \<Longrightarrow> CHR ''_'' \<notin> set b \<Longrightarrow>
   Replace_dot_underscore a = Replace_dot_underscore b \<Longrightarrow> a = b"
proof (induction a arbitrary: b)
  case Nil
  then show ?case by (simp add: Replace_dot_underscore_def)
next
  case (Cons x xs)
  then obtain y ys where b: "b = y # ys"
    by (cases b) (auto simp: Replace_dot_underscore_def)
  with Cons.prems have "x = y"
    by (auto simp: Replace_dot_underscore_def split: if_splits)
  moreover from Cons.prems b have "xs = ys"
    by (intro Cons.IH) (auto simp: Replace_dot_underscore_def)
  ultimately show ?case using b by simp
qed

lemma last_dot_split:
  assumes "CHR ''.'' \<notin> set n" "CHR ''.'' \<notin> set m" "a @ ''.'' @ n = b @ ''.'' @ m"
  shows "a = b \<and> n = m"
proof -
  let ?f = "\<lambda>s. rev (takeWhile (\<lambda>c. c \<noteq> CHR ''.'') (rev s))"
  have tw: "takeWhile (\<lambda>c. c \<noteq> CHR ''.'') (rev s) = rev s" if "CHR ''.'' \<notin> set s" for s
    using that by (induction s) (auto simp: takeWhile_tail)
  have A: "?f (a @ ''.'' @ n) = n"
    by (simp add: takeWhile_tail tw[OF assms(1)])
  have B: "?f (b @ ''.'' @ m) = m"
    by (simp add: takeWhile_tail tw[OF assms(2)])
  have "n = m"
    using A B assms(3) by metis
  with assms(3) show ?thesis by simp
qed

lemma name_toplevel:
  "md_ParentFullName d = md_Package d \<Longrightarrow>
   messageDefinitionName d = Replace_dot_underscore (md_Name d)"
  by (simp add: messageDefinitionName_def)

lemma name_nested:
  assumes "isPrefix (md_Package d @ ''.'') (md_ParentFullName d)"
    and "length (md_Package d) + 1 < length (md_ParentFullName d)"
  shows "messageDefinitionName d =
      Replace_dot_underscore (drop (length (md_Package d) + 1) (md_ParentFullName d) @ ''.'' @ md_Name d)"
    and "md_ParentFullName d = md_Package d @ ''.'' @ drop (length (md_Package d) + 1) (md_ParentFullName d)"
proof -
  show "messageDefinitionName d =
      Replace_dot_underscore (drop (length (md_Package d) + 1) (md_ParentFullName d) @ ''.'' @ md_Name d)"
    using assms(2) by (simp add: messageDefinitionName_def Let_def)
  have "take (length (md_Package d) + 1) (md_ParentFullName d) = md_Package d @ ''.''"
    using assms(1) by (simp add: isPrefix_def)
  then show "md_ParentFullName d = md_Package d @ ''.'' @ drop (length (md_Package d) + 1) (md_ParentFullName d)"
    by (metis append_take_drop_id append.assoc)
qed

lemma inPackage_shape:
  assumes "inPackage pkg d"
  obtains (top) "md_ParentFullName d = pkg"
      "messageDefinitionName d = Replace_dot_underscore (md_Name d)"
  | (nested) rel where "md_ParentFullName d = pkg @ ''.'' @ rel"
      "rel = drop (length pkg + 1) (md_ParentFullName d)"
      "messageDefinitionName d = Replace_dot_underscore (rel @ ''.'' @ md_Name d)"
proof (cases "md_ParentFullName d = pkg")
  case True
  moreover have "md_Package d = pkg"
    using assms by (simp add: inPackage_def)
  ultimately show ?thesis
    using name_toplevel[of d] top by simp
next
  case False
  have p: "md_Package d = pkg"
    using assms by (simp add: inPackage_def)
  from assms False have a: "isPrefix (pkg @ ''.'') (md_ParentFullName d)"
    and b: "length pkg + 1 < length (md_ParentFullName d)"
    unfolding inPackage_def by blast+
  show ?thesis
    using name_nested[of d] a b p nested by simp
qed

lemma inPackage_FullName:
  assumes "inPackage pkg d"
  shows "md_FullName d = md_ParentFullName d @ ''.'' @ md_Name d"
proof -
  have "pkg \<noteq> []" 
    using assms unfolding inPackage_def by blast
  moreover have "md_ParentFullName d = pkg \<or> length pkg + 1 < length (md_ParentFullName d)"
    using assms unfolding inPackage_def by blast
  ultimately have "md_ParentFullName d \<noteq> []"
    by auto
  then show ?thesis
    by (simp add: md_FullName_def)
qed

lemma noUnderscore_rel:
  assumes "noUnderscore d" "md_Package d = pkg"
  shows "CHR ''_'' \<notin> set (drop (length pkg + 1) (md_ParentFullName d))"
    and "CHR ''_'' \<notin> set (md_Name d)"
proof -
  have "set (drop (length pkg + 1) (md_ParentFullName d))
      \<subseteq> set (drop (length pkg) (md_ParentFullName d))"
    by (metis set_drop_subset drop_drop add.commute)
  with assms show "CHR ''_'' \<notin> set (drop (length pkg + 1) (md_ParentFullName d))"
    unfolding noUnderscore_def by blast
  from assms show "CHR ''_'' \<notin> set (md_Name d)"
    unfolding noUnderscore_def by blast
qed

lemma underscore_free_append:
  "CHR ''_'' \<notin> set a \<Longrightarrow> CHR ''_'' \<notin> set b \<Longrightarrow> CHR ''_'' \<notin> set (a @ ''.'' @ b)"
  by simp

lemma messageDefinitionName_differs:
  assumes M: "inPackage pkg M" and N: "inPackage pkg N"
    and uM: "noUnderscore M" and uN: "noUnderscore N"
    and ne: "md_FullName M \<noteq> md_FullName N"
  shows "messageDefinitionName M \<noteq> messageDefinitionName N"
proof
  assume eq: "messageDefinitionName M = messageDefinitionName N"
  have pM: "md_Package M = pkg" and dM: "CHR ''.'' \<notin> set (md_Name M)"
    using M unfolding inPackage_def by blast+
  have pN: "md_Package N = pkg" and dN: "CHR ''.'' \<notin> set (md_Name N)"
    using N unfolding inPackage_def by blast+
  note vM = noUnderscore_rel[OF uM pM] and vN = noUnderscore_rel[OF uN pN]
  from M have "md_ParentFullName M = md_ParentFullName N \<and> md_Name M = md_Name N"
  proof (cases rule: inPackage_shape)
    case top
    note tM = top
    from N show ?thesis
    proof (cases rule: inPackage_shape)
      case top
      have "Replace_dot_underscore (md_Name M) = Replace_dot_underscore (md_Name N)"
        using eq tM(2) top(2) by simp
      then have "md_Name M = md_Name N"
        by (rule Replace_dot_underscore_inj[OF vM(2) vN(2)])
      with tM(1) top(1) show ?thesis by simp
    next
      case (nested rel)
      have u: "CHR ''_'' \<notin> set (rel @ ''.'' @ md_Name N)"
        using vN nested(2) by simp
      have "Replace_dot_underscore (md_Name M) = Replace_dot_underscore (rel @ ''.'' @ md_Name N)"
        using eq tM(2) nested(3) by simp
      then have "md_Name M = rel @ ''.'' @ md_Name N"
        by (rule Replace_dot_underscore_inj[OF vM(2) u])
      with dM show ?thesis by simp
    qed
  next
    case (nested relM)
    note nM = nested
    have uuM: "CHR ''_'' \<notin> set (relM @ ''.'' @ md_Name M)"
      using vM nM(2) by simp
    from N show ?thesis
    proof (cases rule: inPackage_shape)
      case top
      have "Replace_dot_underscore (md_Name N) = Replace_dot_underscore (relM @ ''.'' @ md_Name M)"
        using eq nM(3) top(2) by simp
      then have "md_Name N = relM @ ''.'' @ md_Name M"
        by (rule Replace_dot_underscore_inj[OF vN(2) uuM])
      with dN show ?thesis by simp
    next
      case (nested rel)
      have u: "CHR ''_'' \<notin> set (rel @ ''.'' @ md_Name N)"
        using vN nested(2) by simp
      have "Replace_dot_underscore (relM @ ''.'' @ md_Name M)
          = Replace_dot_underscore (rel @ ''.'' @ md_Name N)"
        using eq nM(3) nested(3) by simp
      then have "relM @ ''.'' @ md_Name M = rel @ ''.'' @ md_Name N"
        by (rule Replace_dot_underscore_inj[OF uuM u])
      then have "relM = rel \<and> md_Name M = md_Name N"
        by (rule last_dot_split[OF dM dN])
      with nM(1) nested(1) show ?thesis by simp
    qed
  qed
  then have "md_FullName M = md_FullName N"
    using inPackage_FullName[OF M] inPackage_FullName[OF N] by simp
  with ne show False by simp
qed

subsection \<open>The node of a field\<close>

lemma schemaOrReferenceForType_unmarked:
  "schemaOrReferenceForType g desc = Some s \<Longrightarrow> unmarked s"
  by (auto simp: unmarked_def schemaOrReferenceForType_def Let_def with_defs emptySchema_def
      split: if_splits)

lemma listOrKindSchema_unmarked:
  "listOrKindSchema isList k = Some s \<Longrightarrow> (\<And>x. k = Some x \<Longrightarrow> unmarked x) \<Longrightarrow> unmarked s"
  by (cases k) (auto simp: unmarked_def listOrKindSchema_def with_defs emptySchema_def
      split: if_splits)

lemma enumSchema_unmarked: "unmarked (enumSchema g vs)"
  by (simp add: unmarked_def enumSchema_def with_defs emptySchema_def Let_def split: list.splits)

lemma integerSchema_unmarked: "unmarked (integerSchema k)"
  by (simp add: unmarked_def integerSchema_def with_defs emptySchema_def)

lemma numberSchema_unmarked: "unmarked (numberSchema k)"
  by (simp add: unmarked_def numberSchema_def with_defs emptySchema_def)

lemma unmarked_with [simp]:
  "unmarked emptySchema"
  "unmarked (with_Default d s) = unmarked s"
  "unmarked (with_Type t s) = unmarked s"
  "unmarked (with_Format f s) = unmarked s"
  "unmarked (with_AdditionalProperties a s) = unmarked s"
  by (simp_all add: unmarked_def with_defs emptySchema_def)

lemma schemaOrReferenceForField_unmarked:
  "schemaOrReferenceForField g fd = (l, Some s) \<Longrightarrow> unmarked s"
proof (induction g fd arbitrary: l s rule: schemaOrReferenceForField.induct)
  case (1 g name jsonName kind isList mapValue behaviors)
  then show ?case
    by (auto split: prod.splits)
next
  case (2 g name jsonName kind isList behaviors)
  then show ?case
    by (cases kind)
       (auto simp: enumSchema_unmarked integerSchema_unmarked numberSchema_unmarked
          split: option.splits elim!: listOrKindSchema_unmarked
          dest: schemaOrReferenceForType_unmarked)
qed

lemma fieldBehaviors_keeps [simp]:
  "Ref (fieldBehaviors bs s) = Ref s"
  "Title (fieldBehaviors bs s) = Title s"
  "Description (fieldBehaviors bs s) = Description s"
  by (induction bs arbitrary: s) (simp_all add: with_defs)

lemma fieldBehaviors_ReadOnly:
  "ReadOnly (fieldBehaviors bs s) = (if OUTPUT_ONLY \<in> set bs then Some True else ReadOnly s)"
  by (induction bs arbitrary: s) (simp_all add: with_defs)

lemma fieldBehaviors_WriteOnly:
  "WriteOnly (fieldBehaviors bs s) = (if INPUT_ONLY \<in> set bs then Some True else WriteOnly s)"
  by (induction bs arbitrary: s) (simp_all add: with_defs)

lemma namedSchemaForField_Some:
  assumes "namedSchemaForField g field schema isValueProp = Inr (l, Some named)"
  obtains fieldSchema version where
    "schemaOrReferenceForField g (f_Desc field) = (l, Some fieldSchema)"
    "getSchemaVersion (Value schema) = Inr version"
    "named = fieldProperty g field version isValueProp fieldSchema"
  using assms
  by (auto simp: namedSchemaForField_def split: prod.splits option.splits sum.splits)

subsection \<open>The version of the draft\<close>

lemma FindStringSubmatch_version_draft:
  assumes "scheme = ''http'' \<or> scheme = ''https''"
    and "sep = CHR ''/'' \<or> sep = CHR ''-''"
    and "d \<noteq> []" and "CHR ''/'' \<notin> set d"
  shows "FindStringSubmatch_version
           (scheme @ ''://json-schema.org/draft'' @ [sep] @ d @ ''/schema'' @ rest) = Some d"
proof -
  have g: "takeWhile (\<lambda>c. c \<noteq> CHR ''/'') (d @ ''/schema'' @ rest) = d"
    using assms(4) by (subst takeWhile_append2) auto
  have "versionMatch (scheme @ ''://json-schema.org/draft'' @ [sep] @ d @ ''/schema'' @ rest) = Some d"
    using assms(1,2,3) g
    by (auto simp: versionMatch_def expect_def isPrefix_def anyChar_def runeWidth_def
        slashOrDash_def Let_def)
  moreover obtain c cs where
    "scheme @ ''://json-schema.org/draft'' @ [sep] @ d @ ''/schema'' @ rest = c # cs"
    using assms(1) by auto
  ultimately show ?thesis by simp
qed

lemma expect_Some: "expect p s = Some r \<Longrightarrow> s = p @ r"
  by (auto simp: expect_def isPrefix_def split: if_splits)
     (metis append_take_drop_id)

lemma runeWidth_bounds: "s \<noteq> [] \<Longrightarrow> 1 \<le> runeWidth s \<and> runeWidth s \<le> 4"
  by (cases s) (simp_all add: runeWidth_def Let_def)

lemma anyChar_Some:
  assumes "anyChar s = Some r"
  obtains c where "s = c @ r" "c \<noteq> []" "length c \<le> 4" "hd c \<noteq> CHR 0x0A"
proof -
  from assms obtain x xs where s: "s = x # xs" and x: "x \<noteq> CHR 0x0A"
    and r: "r = drop (runeWidth s) s"
    by (auto simp: anyChar_def split: list.splits if_splits)
  from s have b: "1 \<le> runeWidth s \<and> runeWidth s \<le> 4"
    by (intro runeWidth_bounds) simp
  let ?c = "take (runeWidth s) s"
  have "s = ?c @ r" using r by simp
  moreover have "?c \<noteq> []" using b s by auto
  moreover have "length ?c \<le> 4" using b by (simp add: min_def)
  moreover have "hd ?c \<noteq> CHR 0x0A" using b s x by (cases "runeWidth s") auto
  ultimately show ?thesis by (rule that)
qed

lemma dropWhile_s:
  "s = replicate (length (takeWhile (\<lambda>c. c = CHR ''s'') s)) (CHR ''s'')
         @ dropWhile (\<lambda>c. c = CHR ''s'') s"
proof -
  have "takeWhile (\<lambda>c. c = CHR ''s'') s
      = replicate (length (takeWhile (\<lambda>c. c = CHR ''s'') s)) (CHR ''s'')"
    by (induction s) auto
  then show ?thesis
    by (metis takeWhile_dropWhile_id)
qed

lemma versionMatch_Some:
  assumes "versionMatch s = Some d"
  shows "\<exists>n c sep rest.
     s = ''http'' @ replicate n (CHR ''s'') @ ''://json-schema'' @ c @ ''org/draft'' @ [sep]
           @ d @ ''/schema'' @ rest
     \<and> c \<noteq> [] \<and> length c \<le> 4 \<and> hd c \<noteq> CHR 0x0A
     \<and> (sep = CHR ''/'' \<or> sep = CHR ''-'') \<and> d \<noteq> [] \<and> CHR ''/'' \<notin> set d"
proof -
  from assms obtain s1 s2 s3 s4 s5 s6 where
    e1: "expect ''http'' s = Some s1"
    and e2: "expect ''://json-schema'' (dropWhile (\<lambda>c. c = CHR ''s'') s1) = Some s2"
    and e3: "anyChar s2 = Some s3"
    and e4: "expect ''org/draft'' s3 = Some s4"
    and e5: "slashOrDash s4 = Some s5"
    and d: "d = takeWhile (\<lambda>c. c \<noteq> CHR ''/'') s5" "d \<noteq> []"
    and e6: "expect ''/schema'' (drop (length d) s5) = Some s6"
    by (auto simp: versionMatch_def Let_def split: option.splits if_splits)
  from e3 obtain c where c: "s2 = c @ s3" "c \<noteq> []" "length c \<le> 4" "hd c \<noteq> CHR 0x0A"
    by (rule anyChar_Some)
  from e5 obtain sep where sep: "s4 = sep # s5" "sep = CHR ''/'' \<or> sep = CHR ''-''"
    by (auto simp: slashOrDash_def split: list.splits if_splits)
  have "take (length d) s5 = d"
    using d(1) by (metis takeWhile_eq_take)
  then have s5: "s5 = d @ ''/schema'' @ s6"
    using expect_Some[OF e6] by (metis append_take_drop_id)
  have nd: "CHR ''/'' \<notin> set d"
    using d(1) by (auto dest: set_takeWhileD)
  let ?n = "length (takeWhile (\<lambda>c. c = CHR ''s'') s1)"
  have "s1 = replicate ?n (CHR ''s'') @ ''://json-schema'' @ s2"
    using dropWhile_s[of s1] expect_Some[OF e2] by simp
  then have "s = ''http'' @ replicate ?n (CHR ''s'') @ ''://json-schema'' @ c @ ''org/draft'' @ [sep]
           @ d @ ''/schema'' @ s6"
    using expect_Some[OF e1] expect_Some[OF e4] c(1) sep(1) s5 by simp
  with c(2,3,4) sep(2) d(2) nd show ?thesis by blast
qed

lemma FindStringSubmatch_version_Some:
  assumes "FindStringSubmatch_version v = Some d"
  shows "\<exists>pre n c sep rest.
     v = pre @ ''http'' @ replicate n (CHR ''s'') @ ''://json-schema'' @ c @ ''org/draft'' @ [sep]
           @ d @ ''/schema'' @ rest
     \<and> c \<noteq> [] \<and> length c \<le> 4 \<and> hd c \<noteq> CHR 0x0A
     \<and> (sep = CHR ''/'' \<or> sep = CHR ''-'') \<and> d \<noteq> [] \<and> CHR ''/'' \<notin> set d"
  using assms
proof (induction v)
  case Nil
  then have "versionMatch [] = Some d" by simp
  from versionMatch_Some[OF this] show ?case by simp
next
  case (Cons x xs)
  show ?case
  proof (cases "versionMatch (x # xs)")
    case (Some d')
    with Cons.prems have "versionMatch (x # xs) = Some d" by simp
    from versionMatch_Some[OF this] obtain n c sep rest where
      "x # xs = [] @ ''http'' @ replicate n (CHR ''s'') @ ''://json-schema'' @ c @ ''org/draft'' @ [sep]
           @ d @ ''/schema'' @ rest
       \<and> c \<noteq> [] \<and> length c \<le> 4 \<and> hd c \<noteq> CHR 0x0A
       \<and> (sep = CHR ''/'' \<or> sep = CHR ''-'') \<and> d \<noteq> [] \<and> CHR ''/'' \<notin> set d"
      by auto
    then show ?thesis by blast
  next
    case None
    with Cons.prems have "FindStringSubmatch_version xs = Some d" by simp
    from Cons.IH[OF this] obtain pre n c sep rest where
      "xs = pre @ ''http'' @ replicate n (CHR ''s'') @ ''://json-schema'' @ c @ ''org/draft'' @ [sep]
           @ d @ ''/schema'' @ rest
       \<and> c \<noteq> [] \<and> length c \<le> 4 \<and> hd c \<noteq> CHR 0x0A
       \<and> (sep = CHR ''/'' \<or> sep = CHR ''-'') \<and> d \<noteq> [] \<and> CHR ''/'' \<notin> set d"
      by blast
    then have "x # xs = (x # pre) @ ''http'' @ replicate n (CHR ''s'') @ ''://json-schema'' @ c
           @ ''org/draft'' @ [sep] @ d @ ''/schema'' @ rest
       \<and> c \<noteq> [] \<and> length c \<le> 4 \<and> hd c \<noteq> CHR 0x0A
       \<and> (sep = CHR ''/'' \<or> sep = CHR ''-'') \<and> d \<noteq> [] \<and> CHR ''/'' \<notin> set d"
      by simp
    then show ?thesis by blast
  qed
qed

lemma draftVersion_form:
  assumes "draftVersion g \<noteq> []"
  shows "\<exists>pre n c sep rest.
     Version (conf g) = pre @ ''http'' @ replicate n (CHR ''s'') @ ''://json-schema'' @ c
           @ ''org/draft'' @ [sep] @ draftVersion g @ ''/schema'' @ rest
     \<and> c \<noteq> [] \<and> length c \<le> 4 \<and> hd c \<noteq> CHR 0x0A
     \<and> (sep = CHR ''/'' \<or> sep = CHR ''-'') \<and> CHR ''/'' \<notin> set (draftVersion g)"
proof -
  from assms obtain d where d: "FindStringSubmatch_version (Version (conf g)) = Some d"
    and e: "draftVersion g = d"
    by (auto simp: draftVersion_def split: option.splits)
  from FindStringSubmatch_version_Some[OF d] show ?thesis
    unfolding e by blast
qed

lemma string_ge_lexord:
  "string_ge v w = (v = w \<or> (w, v) \<in> lexord {(x, y). (of_char x :: nat) < of_char y})"
proof (induction v w rule: string_ge.induct)
  case (1 a)
  then show ?case by (cases a) simp_all
next
  case (2 y ys)
  then show ?case by simp
next
  case (3 x xs y ys)
  then show ?case by auto
qed


lemma getSchemaVersion_configured:
  "Schema' (Value schema) = Some (Version (conf g)) \<Longrightarrow>
   getSchemaVersion (Value schema) = Inr (draftVersion g)"
  by (simp add: getSchemaVersion_def draftVersion_def split: option.splits)

lemma namedSchemaForField_marks:
  assumes "getSchemaVersion (Value schema) = Inr version"
    and "namedSchemaForField g field schema isValueProp = Inr (l, Some named)"
  shows "ReadOnly (Value named) =
           (if string_ge version ''07'' \<and> OUTPUT_ONLY \<in> set (fd_Behaviors (f_Desc field))
            then Some True else None)
       \<and> WriteOnly (Value named) =
           (if string_ge version ''07'' \<and> INPUT_ONLY \<in> set (fd_Behaviors (f_Desc field))
            then Some True else None)"
proof -
  from assms(2) obtain fieldSchema version' where
    f: "schemaOrReferenceForField g (f_Desc field) = (l, Some fieldSchema)"
    and v: "getSchemaVersion (Value schema) = Inr version'"
    and n: "named = fieldProperty g field version' isValueProp fieldSchema"
    by (rule namedSchemaForField_Some)
  from v assms(1) have vv: "version' = version" by simp
  from f have "unmarked fieldSchema"
    by (rule schemaOrReferenceForField_unmarked)
  then have "ReadOnly fieldSchema = None" "WriteOnly fieldSchema = None"
    by (simp_all add: unmarked_def)
  then show ?thesis
    unfolding n vv
    by (simp add: fieldProperty_def Let_def with_defs fieldBehaviors_ReadOnly
        fieldBehaviors_WriteOnly)
qed

subsection \<open>Extending a document\<close>

lemma extendSchema_sel [simp]:
  "Name (extendSchema ps ds s) = Name s"
  "Schema' (Value (extendSchema ps ds s)) = Schema' (Value s)"
  "Properties (Value (extendSchema ps ds s)) = map_option (\<lambda>old. old @ ps) (Properties (Value s))"
  "definitionsOf (extendSchema ps ds s) = definitionsOf s @ ds"
  "Title (Value (extendSchema ps ds s)) = Title (Value s)"
  by (simp_all add: extendSchema_def Let_def definitionsOf_def)

lemma getSchemaVersion_extendSchema [simp]:
  "getSchemaVersion (Value (extendSchema ps ds s)) = getSchemaVersion (Value s)"
  by (simp add: getSchemaVersion_def)

lemma extendSchema_Nil [simp]: "extendSchema [] [] s = s"
proof (cases s)
  case (NamedSchema n v)
  then show ?thesis
    by (cases v, cases "Properties v") (simp_all add: extendSchema_def Let_def)
qed

lemma extendSchema_extendSchema [simp]:
  "extendSchema ps2 ds2 (extendSchema ps1 ds1 s) = extendSchema (ps1 @ ps2) (ds1 @ ds2) s"
  by (cases "Properties (Value s)")
     (simp_all add: extendSchema_def Let_def definitionsOf_def)

lemma appendDefinition_extendSchema: "appendDefinition d s = extendSchema [] [d] s"
proof (cases s)
  case (NamedSchema n v)
  then show ?thesis
    by (cases v, cases "Properties v")
       (simp_all add: appendDefinition_def extendSchema_def Let_def definitionsOf_def with_defs)
qed

lemma appendProperty_extendSchema:
  "Properties (Value s) \<noteq> None \<Longrightarrow> appendProperty p s = Inr (extendSchema [p] [] s)"
  by (cases s, cases "Value s")
     (auto simp: appendProperty_def extendSchema_def Let_def with_defs)

subsection \<open>The loops over oneofs and fields\<close>

lemma namedSchemaForField_closed:
  assumes "getSchemaVersion (Value schema) = Inr version"
  shows "namedSchemaForField g f schema isValueProp =
     Inr (fst (schemaOrReferenceForField g (f_Desc f)),
          map_option (fieldProperty g f version isValueProp)
            (snd (schemaOrReferenceForField g (f_Desc f))))"
  using assms by (simp add: namedSchemaForField_def split: prod.splits option.splits)

lemma oneofField_closed:
  assumes "getSchemaVersion (Value schema) = Inr version"
  shows "oneofField g f (logs, oneOf, schema) =
     Inr (logs @ fst (schemaOrReferenceForField g (f_Desc f)),
          oneOf @ map (memberReference (Name schema)) (filter (mapsToNode g) [f]),
          extendSchema [] (memberDefinitions g (Name schema) version [f]) schema)"
proof (cases "snd (schemaOrReferenceForField g (f_Desc f))")
  case None
  then show ?thesis
    by (simp add: oneofField_def Let_def namedSchemaForField_closed[OF assms] mapsToNode_def
        memberDefinitions_def memberDefinition_def List.map_filter_simps)
next
  case (Some fieldSchema)
  then show ?thesis
    by (simp add: oneofField_def Let_def namedSchemaForField_closed[OF assms] mapsToNode_def
        memberDefinitions_def memberDefinition_def List.map_filter_simps
        appendDefinition_extendSchema memberReference_def memberName_def with_defs)
qed

lemma memberDefinitions_Cons:
  "memberDefinitions g n v (f # fs) = memberDefinitions g n v [f] @ memberDefinitions g n v fs"
  by (simp add: memberDefinitions_def List.map_filter_simps split: option.splits)

lemma oneofFields_closed:
  assumes "getSchemaVersion (Value schema) = Inr version"
  shows "\<exists>l. oneofFields g fs (logs, oneOf, schema) =
     Inr (logs @ l,
          oneOf @ map (memberReference (Name schema)) (filter (mapsToNode g) fs),
          extendSchema [] (memberDefinitions g (Name schema) version fs) schema)"
  using assms
proof (induction fs arbitrary: logs oneOf schema)
  case Nil
  then show ?case
    by (simp add: memberDefinitions_def List.map_filter_simps)
next
  case (Cons f fs)
  let ?s = "extendSchema [] (memberDefinitions g (Name schema) version [f]) schema"
  have v: "getSchemaVersion (Value ?s) = Inr version"
    using Cons.prems by simp
  from Cons.IH[OF v] obtain l where
    "oneofFields g fs (logs @ fst (schemaOrReferenceForField g (f_Desc f)),
        oneOf @ map (memberReference (Name schema)) (filter (mapsToNode g) [f]), ?s) =
     Inr ((logs @ fst (schemaOrReferenceForField g (f_Desc f))) @ l,
          (oneOf @ map (memberReference (Name schema)) (filter (mapsToNode g) [f]))
            @ map (memberReference (Name ?s)) (filter (mapsToNode g) fs),
          extendSchema [] (memberDefinitions g (Name ?s) version fs) ?s)"
    by blast
  then show ?case
    by (simp add: oneofField_closed[OF Cons.prems] memberDefinitions_Cons[of g _ version f fs])
qed

lemma oneofSchema_closed:
  assumes "getSchemaVersion (Value schema) = Inr version"
    and "Properties (Value schema) \<noteq> None"
  shows "\<exists>l. oneofSchema g oneOfProto (logs, schema) =
     Inr (logs @ l,
          extendSchema [oneofProperty g (Name schema) oneOfProto]
            (memberDefinitions g (Name schema) version (o_Fields oneOfProto)) schema)"
proof -
  from oneofFields_closed[OF assms(1)] obtain l where
    "oneofFields g (o_Fields oneOfProto) (logs, [with_Type (String typeNull) emptySchema], schema) =
     Inr (logs @ l,
          [with_Type (String typeNull) emptySchema]
            @ map (memberReference (Name schema)) (filter (mapsToNode g) (o_Fields oneOfProto)),
          extendSchema [] (memberDefinitions g (Name schema) version (o_Fields oneOfProto)) schema)"
    by blast
  moreover have "Properties (Value (extendSchema []
      (memberDefinitions g (Name schema) version (o_Fields oneOfProto)) schema)) \<noteq> None"
    using assms(2) by simp
  ultimately show ?thesis
    by (simp add: oneofSchema_def appendProperty_extendSchema oneofProperty_def
        oneofAlternatives_def)
qed

lemma addOneofFieldsToSchema_closed:
  assumes "getSchemaVersion (Value schema) = Inr version"
    and "Properties (Value schema) \<noteq> None"
  shows "\<exists>l. addOneofFieldsToSchema g oneofs (logs, schema) =
     Inr (logs @ l,
          extendSchema (map (oneofProperty g (Name schema)) oneofs)
            (concat (map (\<lambda>oneOfProto. memberDefinitions g (Name schema) version (o_Fields oneOfProto))
               oneofs)) schema)"
  using assms
proof (induction oneofs arbitrary: logs schema)
  case Nil
  then show ?case by simp
next
  case (Cons oneOfProto oneofs)
  let ?s = "extendSchema [oneofProperty g (Name schema) oneOfProto]
            (memberDefinitions g (Name schema) version (o_Fields oneOfProto)) schema"
  from oneofSchema_closed[OF Cons.prems] obtain l where
    l: "oneofSchema g oneOfProto (logs, schema) = Inr (logs @ l, ?s)"
    by blast
  have v: "getSchemaVersion (Value ?s) = Inr version" and p: "Properties (Value ?s) \<noteq> None"
    using Cons.prems by simp_all
  from Cons.IH[OF v p] obtain l' where
    "addOneofFieldsToSchema g oneofs (logs @ l, ?s) =
     Inr ((logs @ l) @ l',
          extendSchema (map (oneofProperty g (Name ?s)) oneofs)
            (concat (map (\<lambda>oneOfProto. memberDefinitions g (Name ?s) version (o_Fields oneOfProto))
               oneofs)) ?s)"
    by blast
  with l show ?case by simp
qed

lemma plainFields_closed:
  assumes "getSchemaVersion (Value schema) = Inr version"
    and "Properties (Value schema) \<noteq> None"
  shows "\<exists>l. plainFields g fs (logs, schema) =
     Inr (logs @ l, extendSchema (plainProperties g version fs) [] schema)"
  using assms
proof (induction fs arbitrary: logs schema)
  case Nil
  then show ?case
    by (simp add: plainProperties_def List.map_filter_simps)
next
  case (Cons f fs)
  show ?case
  proof (cases "plainProperty g version f")
    case None
    then have "plainProperties g version (f # fs) = plainProperties g version fs"
      by (simp add: plainProperties_def List.map_filter_simps)
    moreover from Cons.IH[OF Cons.prems] obtain l where
      "plainFields g fs (logs @ fst (schemaOrReferenceForField g (f_Desc f)), schema) =
         Inr ((logs @ fst (schemaOrReferenceForField g (f_Desc f))) @ l,
              extendSchema (plainProperties g version fs) [] schema)"
      by blast
    moreover from Cons.IH[OF Cons.prems] obtain l' where
      "plainFields g fs (logs, schema) =
         Inr (logs @ l', extendSchema (plainProperties g version fs) [] schema)"
      by blast
    ultimately show ?thesis
      using None
      by (auto simp: plainProperty_def namedSchemaForField_closed[OF Cons.prems(1)]
          split: if_splits)
  next
    case (Some p)
    then have pp: "plainProperties g version (f # fs) = p # plainProperties g version fs"
      by (simp add: plainProperties_def List.map_filter_simps)
    let ?s = "extendSchema [p] [] schema"
    have v: "getSchemaVersion (Value ?s) = Inr version" and q: "Properties (Value ?s) \<noteq> None"
      using Cons.prems by simp_all
    from Cons.IH[OF v q] obtain l where
      "plainFields g fs (logs @ fst (schemaOrReferenceForField g (f_Desc f)), ?s) =
         Inr ((logs @ fst (schemaOrReferenceForField g (f_Desc f))) @ l,
              extendSchema (plainProperties g version fs) [] ?s)"
      by blast
    then show ?thesis
      using Some Cons.prems(2)
      by (auto simp: pp plainProperty_def namedSchemaForField_closed[OF Cons.prems(1)]
          appendProperty_extendSchema split: if_splits)
  qed
qed

subsection \<open>The documents of the messages\<close>

lemma setupSchemaForMessage_sel [simp]:
  "Name (setupSchemaForMessage g n c) = n"
  "Schema' (Value (setupSchemaForMessage g n c)) = Some (Version (conf g))"
  "Properties (Value (setupSchemaForMessage g n c)) = Some []"
  "Definitions (Value (setupSchemaForMessage g n c)) = None"
  "Title (Value (setupSchemaForMessage g n c)) = Some n"
  by (simp_all add: setupSchemaForMessage_def Let_def with_defs emptySchema_def)

lemma getSchemaVersion_setup [simp]:
  "getSchemaVersion (Value (setupSchemaForMessage g n c)) = Inr (draftVersion g)"
  by (simp add: getSchemaVersion_def draftVersion_def split: option.splits)

lemma messageSchema_closed:
  "\<exists>l. messageSchema g m =
     Inr (l, if md_IsMapEntry (m_Desc m) then [] else [messageDocument g m])"
proof (cases "md_IsMapEntry (m_Desc m)")
  case True
  then show ?thesis by (simp add: messageSchema_def)
next
  case False
  let ?n = "messageDefinitionName (m_Desc m)"
  let ?s0 = "setupSchemaForMessage g ?n (m_Leading m)"
  let ?ps = "map (oneofProperty g ?n) (m_Oneofs m)"
  let ?ds = "concat (map (\<lambda>oneOfProto. memberDefinitions g ?n (draftVersion g) (o_Fields oneOfProto))
           (m_Oneofs m))"
  have "\<exists>l. addOneofFieldsToSchema g (m_Oneofs m) ([], ?s0) = Inr ([] @ l, extendSchema ?ps ?ds ?s0)"
    using addOneofFieldsToSchema_closed[of ?s0 "draftVersion g" g "m_Oneofs m" "[]"] by simp
  then obtain l where
    a: "addOneofFieldsToSchema g (m_Oneofs m) ([], ?s0) = Inr (l, extendSchema ?ps ?ds ?s0)"
    by auto
  have "\<exists>l'. plainFields g (m_Fields m) (l, extendSchema ?ps ?ds ?s0) =
      Inr (l @ l', extendSchema (plainProperties g (draftVersion g) (m_Fields m)) []
        (extendSchema ?ps ?ds ?s0))"
    by (rule plainFields_closed) simp_all
  then obtain l' where
    b: "plainFields g (m_Fields m) (l, extendSchema ?ps ?ds ?s0) =
      Inr (l @ l', extendSchema (?ps @ plainProperties g (draftVersion g) (m_Fields m)) ?ds ?s0)"
    by auto
  from False a b show ?thesis
    by (simp add: messageSchema_def messageDocument_def Let_def)
qed

lemma buildSchemasFromMessages_closed:
  "\<exists>l. buildSchemasFromMessages g ms = Inr (l, concat (map (depthFirst g) ms))"
  "\<exists>l. subMessages g ms = Inr (l, concat (map (depthFirst g) ms))"
proof (induction g ms and g ms rule: buildSchemasFromMessages_subMessages.induct)
  case (1 g)
  show ?case by simp
next
  case (2 g message messages)
  obtain l1 where s: "subMessages g (m_Messages message)
      = Inr (l1, concat (map (depthFirst g) (m_Messages message)))"
    using "2.IH"(1) by blast
  obtain l2 where m: "messageSchema g message =
      Inr (l2, if md_IsMapEntry (m_Desc message) then [] else [messageDocument g message])"
    using messageSchema_closed by blast
  obtain l3 where r: "buildSchemasFromMessages g messages
      = Inr (l3, concat (map (depthFirst g) messages))"
    using "2.IH"(2)[OF s refl m refl] by blast
  show ?case
    by (cases message) (use s m r in auto)
next
  case (3 g)
  show ?case by simp
next
  case (4 g subMessage rest)
  obtain l1 where s: "buildSchemasFromMessages g [subMessage]
      = Inr (l1, concat (map (depthFirst g) [subMessage]))"
    using "4.IH"(1) by blast
  obtain l2 where r: "subMessages g rest = Inr (l2, concat (map (depthFirst g) rest))"
    using "4.IH"(2)[OF s refl] by blast
  show ?case
    using s r by simp
qed

subsection \<open>The definitions of the members of a oneof\<close>

lemma memberDefinitions_length:
  "length (memberDefinitions g n v fs) = length (filter (mapsToNode g) fs)"
  by (induction fs)
     (simp_all add: memberDefinitions_def List.map_filter_simps memberDefinition_def
        mapsToNode_def split: option.splits)

lemma memberDefinitions_names:
  "map Name (memberDefinitions g n v fs) = map (memberName n) (filter (mapsToNode g) fs)"
  by (induction fs)
     (simp_all add: memberDefinitions_def List.map_filter_simps memberDefinition_def
        mapsToNode_def split: option.splits)

lemma memberDefinitions_properties:
  assumes "d \<in> set (memberDefinitions g n v fs)"
  shows "\<exists>f value. f \<in> set fs \<and> Name value = ''value''
            \<and> Properties (Value d) = Some [buildKindProperty g (fd_Name (f_Desc f)), value]"
  using assms
proof (induction fs)
  case Nil
  then show ?case by (simp add: memberDefinitions_def List.map_filter_simps)
next
  case (Cons f fs)
  show ?case
  proof (cases "memberDefinition g n v f")
    case None
    with Cons show ?thesis
      by (auto simp: memberDefinitions_def List.map_filter_simps)
  next
    case (Some d')
    then have "d = d' \<or> d \<in> set (memberDefinitions g n v fs)"
      using Cons.prems by (auto simp: memberDefinitions_def List.map_filter_simps)
    then show ?thesis
    proof
      assume "d = d'"
      from Some \<open>d = d'\<close> obtain fieldSchema where
        "d = NamedSchema (memberName n f)
            (with_Properties
               [buildKindProperty g (fd_Name (f_Desc f)), fieldProperty g f v True fieldSchema]
               (with_Title (memberName n f) (with_Type (String typeObject) emptySchema)))"
        by (auto simp: memberDefinition_def split: option.splits)
      moreover have "Name (fieldProperty g f v True fieldSchema) = ''value''"
        by (simp add: fieldProperty_def Let_def)
      ultimately show ?thesis
        by (auto simp: with_defs)
    next
      assume "d \<in> set (memberDefinitions g n v fs)"
      with Cons.IH show ?thesis by auto
    qed
  qed
qed

lemma buildKindProperty_sel:
  "Name (buildKindProperty g p) = ''kind''"
  "Enumeration (Value (buildKindProperty g p)) = Some [EnumString p]"
  "Type (Value (buildKindProperty g p)) = Some (String ''string'')"
  "Default (Value (buildKindProperty g p)) = Some (StringValue p)"
  by (simp_all add: buildKindProperty_def Let_def with_defs emptySchema_def typeString_def)

lemma oneofProperty_sel:
  "OneOf (Value (oneofProperty g n oneOfProto)) = Some (oneofAlternatives g n oneOfProto)"
  "Default (Value (oneofProperty g n oneOfProto)) = Some NullTag"
  "Name (oneofProperty g n oneOfProto) = formatOneofFieldName g oneOfProto"
  by (simp_all add: oneofProperty_def with_defs emptySchema_def)

lemma bookDocument_ready:
  "getSchemaVersion (Value bookDocument) = Inr ''07''"
  "Properties (Value bookDocument) = Some []"
  by code_simp+

subsection \<open>The order of the documents\<close>

lemma depthFirst_unfold:
  "depthFirst g message =
     concat (map (depthFirst g) (m_Messages message))
       @ (if md_IsMapEntry (m_Desc message) then [] else [messageDocument g message])"
  by (cases message) simp

lemma messageDocument_Properties:
  "Properties (Value (messageDocument g message)) =
     Some (map (oneofProperty g (messageDefinitionName (m_Desc message))) (m_Oneofs message)
           @ plainProperties g (draftVersion g) (m_Fields message))"
  by (simp add: messageDocument_def Let_def)

section \<open>The claims\<close>

text \<open>
  C1, as amended. For a message of a package that is not empty, the document name is a
  function of the descriptor alone: the names of the enclosing messages beyond the
  package and the name of the message, joined by dots, with every dot replaced by an
  underscore. Two such messages of one package with different full names get
  different document names, provided no name on their paths (the message and the
  messages around it) has an underscore. Without that proviso names collide, as the
  third theorem shows; nothing is said here about a file without a package.
\<close>

theorem messageDefinitionName_injective_in_package:
  assumes M: "inPackage pkg M"
  shows "messageDefinitionName M =
           map (\<lambda>c. if c = CHR ''.'' then CHR ''_'' else c)
             (if md_ParentFullName M = pkg then md_Name M
              else drop (length pkg + 1) (md_ParentFullName M) @ ''.'' @ md_Name M)
       \<and> (\<forall>N. inPackage pkg N \<and> noUnderscore M \<and> noUnderscore N
              \<and> md_FullName M \<noteq> md_FullName N \<longrightarrow>
            messageDefinitionName M \<noteq> messageDefinitionName N)"
proof
  from M show "messageDefinitionName M =
           map (\<lambda>c. if c = CHR ''.'' then CHR ''_'' else c)
             (if md_ParentFullName M = pkg then md_Name M
              else drop (length pkg + 1) (md_ParentFullName M) @ ''.'' @ md_Name M)"
  proof (cases rule: inPackage_shape)
    case top
    then show ?thesis by (simp add: Replace_dot_underscore_def)
  next
    case (nested rel)
    have "md_ParentFullName M \<noteq> pkg"
      using nested(1) by simp
    with nested show ?thesis by (simp add: Replace_dot_underscore_def)
  qed
  show "\<forall>N. inPackage pkg N \<and> noUnderscore M \<and> noUnderscore N
              \<and> md_FullName M \<noteq> md_FullName N \<longrightarrow>
            messageDefinitionName M \<noteq> messageDefinitionName N"
    using messageDefinitionName_differs[OF M] by blast
qed

theorem messageDefinitionName_injective_witness:
  "inPackage ''lib'' \<lparr>md_Name = ''Page'', md_Package = ''lib'', md_ParentFullName = ''lib.Book'', md_IsMapEntry = False\<rparr>
   \<and> inPackage ''lib'' \<lparr>md_Name = ''Page'', md_Package = ''lib'', md_ParentFullName = ''lib'', md_IsMapEntry = False\<rparr>
   \<and> noUnderscore \<lparr>md_Name = ''Page'', md_Package = ''lib'', md_ParentFullName = ''lib.Book'', md_IsMapEntry = False\<rparr>
   \<and> noUnderscore \<lparr>md_Name = ''Page'', md_Package = ''lib'', md_ParentFullName = ''lib'', md_IsMapEntry = False\<rparr>
   \<and> messageDefinitionName \<lparr>md_Name = ''Page'', md_Package = ''lib'', md_ParentFullName = ''lib.Book'', md_IsMapEntry = False\<rparr>
     = ''Book_Page''
   \<and> messageDefinitionName \<lparr>md_Name = ''Page'', md_Package = ''lib'', md_ParentFullName = ''lib'', md_IsMapEntry = False\<rparr>
     = ''Page''
   \<and> messageDefinitionName \<lparr>md_Name = ''Page'', md_Package = ''lib'', md_ParentFullName = ''lib.Book'', md_IsMapEntry = False\<rparr>
     \<noteq> messageDefinitionName \<lparr>md_Name = ''Page'', md_Package = ''lib'', md_ParentFullName = ''lib'', md_IsMapEntry = False\<rparr>"
proof -
  let ?M = "\<lparr>md_Name = ''Page'', md_Package = ''lib'', md_ParentFullName = ''lib.Book'', md_IsMapEntry = False\<rparr>"
  let ?N = "\<lparr>md_Name = ''Page'', md_Package = ''lib'', md_ParentFullName = ''lib'', md_IsMapEntry = False\<rparr>"
  have M: "inPackage ''lib'' ?M" and N: "inPackage ''lib'' ?N"
    by (simp_all add: inPackage_def isPrefix_def)
  have uM: "noUnderscore ?M" and uN: "noUnderscore ?N"
    by (simp_all add: noUnderscore_def)
  have ne: "md_FullName ?M \<noteq> md_FullName ?N"
    by (simp add: md_FullName_def)
  have nM: "messageDefinitionName ?M = ''Book_Page''"
    using messageDefinitionName_injective_in_package[OF M, THEN conjunct1] by simp
  have nN: "messageDefinitionName ?N = ''Page''"
    using messageDefinitionName_injective_in_package[OF N, THEN conjunct1] by simp
  have d: "messageDefinitionName ?M \<noteq> messageDefinitionName ?N"
    using messageDefinitionName_injective_in_package[OF M, THEN conjunct2] N uM uN ne by blast
  from M N uM uN nM nN d show ?thesis
    by (intro conjI)
qed

text \<open>
  C1 as stated fails. In the package \<^verbatim>\<open>lib\<close>, the message \<^verbatim>\<open>Book_Page\<close> and the message
  \<^verbatim>\<open>Page\<close> nested in \<^verbatim>\<open>Book\<close> are different messages with the document name
  \<^verbatim>\<open>Book_Page\<close>; and two files of one invocation, of the packages \<^verbatim>\<open>lib\<close> and \<^verbatim>\<open>shop\<close>,
  may each declare a message \<^verbatim>\<open>Book\<close>, both with the document name \<^verbatim>\<open>Book\<close>.
\<close>

theorem messageDefinitionName_collision:
  "md_FullName \<lparr>md_Name = ''Book_Page'', md_Package = ''lib'', md_ParentFullName = ''lib'', md_IsMapEntry = False\<rparr>
     \<noteq> md_FullName \<lparr>md_Name = ''Page'', md_Package = ''lib'', md_ParentFullName = ''lib.Book'', md_IsMapEntry = False\<rparr>
   \<and> messageDefinitionName \<lparr>md_Name = ''Book_Page'', md_Package = ''lib'', md_ParentFullName = ''lib'', md_IsMapEntry = False\<rparr>
     = messageDefinitionName \<lparr>md_Name = ''Page'', md_Package = ''lib'', md_ParentFullName = ''lib.Book'', md_IsMapEntry = False\<rparr>
   \<and> md_FullName \<lparr>md_Name = ''Book'', md_Package = ''lib'', md_ParentFullName = ''lib'', md_IsMapEntry = False\<rparr>
     \<noteq> md_FullName \<lparr>md_Name = ''Book'', md_Package = ''shop'', md_ParentFullName = ''shop'', md_IsMapEntry = False\<rparr>
   \<and> messageDefinitionName \<lparr>md_Name = ''Book'', md_Package = ''lib'', md_ParentFullName = ''lib'', md_IsMapEntry = False\<rparr>
     = messageDefinitionName \<lparr>md_Name = ''Book'', md_Package = ''shop'', md_ParentFullName = ''shop'', md_IsMapEntry = False\<rparr>"
  by (simp add: md_FullName_def messageDefinitionName_def Replace_dot_underscore_def)

text \<open>
  C2 fails on the code. With the naming \<^verbatim>\<open>json\<close> the reference passes the document name
  through \<open>formatMessageNameString\<close>, the document itself does not: a field of the
  message type \<^verbatim>\<open>A\<close> refers to \<^verbatim>\<open>a.json\<close> while the document of \<^verbatim>\<open>A\<close> is named \<^verbatim>\<open>A\<close>, and
  a field of the message type \<^verbatim>\<open>book\<close> refers to \<^verbatim>\<open>Book.json\<close> while the document is named
  \<^verbatim>\<open>book\<close>.
\<close>

theorem reference_misses_document_name:
  "snd (schemaOrReferenceForField exampleGenerator
          (FieldDescriptor ''a'' ''a'' (MessageKind (topLevel ''lib'' ''A'')) False None []))
     = Some (with_Ref ''a.json'' emptySchema)
   \<and> map_sum id (map Name \<circ> snd)
         (buildSchemasFromMessages exampleGenerator [Message (topLevel ''lib'' ''A'') [] [] [] []])
     = Inr [''A'']
   \<and> snd (schemaOrReferenceForField exampleGenerator
          (FieldDescriptor ''b'' ''b'' (MessageKind (topLevel ''lib'' ''book'')) False None []))
     = Some (with_Ref ''Book.json'' emptySchema)
   \<and> map_sum id (map Name \<circ> snd)
         (buildSchemasFromMessages exampleGenerator [Message (topLevel ''lib'' ''book'') [] [] [] []])
     = Inr [''book'']"
  by code_simp

text \<open>
  C3, as amended. A node of a field that carries a reference carries no title. Its
  description does not depend on the reference: it is the leading comment of the
  field after filtering, present whenever that text is not empty.
\<close>

theorem reference_node_has_no_title:
  assumes "namedSchemaForField g field schema isValueProp = Inr (l, Some named)"
  shows "(Ref (Value named) \<noteq> None \<longrightarrow> Title (Value named) = None)
       \<and> Description (Value named) =
           (if filterCommentString g (f_Leading field) True = [] then None
            else Some (filterCommentString g (f_Leading field) True))"
proof -
  from assms obtain fieldSchema version where
    f: "schemaOrReferenceForField g (f_Desc field) = (l, Some fieldSchema)"
    and n: "named = fieldProperty g field version isValueProp fieldSchema"
    by (rule namedSchemaForField_Some)
  from f have "unmarked fieldSchema"
    by (rule schemaOrReferenceForField_unmarked)
  then have "Title fieldSchema = None" "Description fieldSchema = None"
    by (simp_all add: unmarked_def)
  then show ?thesis
    unfolding n
    by (simp add: fieldProperty_def Let_def with_defs)
qed

theorem reference_node_has_no_title_witness:
  "namedSchemaForField exampleGenerator authorField bookDocument False =
     Inr ([], Some (NamedSchema ''author''
       (with_Description ''The author.'' (with_ReadOnly True (with_Ref ''Author.json'' emptySchema)))))
   \<and> Title (with_Description ''The author.'' (with_ReadOnly True (with_Ref ''Author.json'' emptySchema)))
       = None"
proof -
  have h: "namedSchemaForField exampleGenerator authorField bookDocument False =
     Inr ([], Some (NamedSchema ''author''
       (with_Description ''The author.'' (with_ReadOnly True (with_Ref ''Author.json'' emptySchema)))))"
    by code_simp
  have "Ref (with_Description ''The author.'' (with_ReadOnly True (with_Ref ''Author.json'' emptySchema)))
      \<noteq> None"
    by (simp add: with_defs)
  with reference_node_has_no_title[OF h] h show ?thesis by simp
qed

text \<open>
  C3 as stated fails: the field \<^verbatim>\<open>author\<close>, of a message type and with a leading comment,
  gets a node with both a reference and a description.
\<close>

theorem reference_node_with_description:
  "namedSchemaForField exampleGenerator authorField bookDocument False =
     Inr ([], Some (NamedSchema ''author''
       (with_Description ''The author.'' (with_ReadOnly True (with_Ref ''Author.json'' emptySchema)))))
   \<and> Ref (with_Description ''The author.'' (with_ReadOnly True (with_Ref ''Author.json'' emptySchema)))
       = Some ''Author.json''
   \<and> Description (with_Description ''The author.'' (with_ReadOnly True (with_Ref ''Author.json'' emptySchema)))
       = Some ''The author.''"
  by code_simp

text \<open>
  C4, as amended. One round of the loop over the oneofs, on a document whose version
  can be read and whose properties are there, returns and adds exactly one property.
  Its union list is the null type followed by one reference to a local definition for
  every member that is mapped to a node, in order: one more alternative than there
  are such members, and as many new definitions. Every new definition has exactly two
  properties, \<^verbatim>\<open>kind\<close> with an enumeration of one literal, and \<^verbatim>\<open>value\<close>. A member that is
  mapped to nil is skipped, so the list has N+1 alternatives only when all N members
  are mapped.
\<close>

theorem oneof_union_and_definitions:
  assumes "getSchemaVersion (Value schema) = Inr version"
    and "Properties (Value schema) = Some ps"
  shows "\<exists>l schema' property alternatives definitions.
     oneofSchema g oneOfProto (logs, schema) = Inr (l, schema')
     \<and> Properties (Value schema') = Some (ps @ [property])
     \<and> OneOf (Value property) = Some alternatives
     \<and> alternatives = with_Type (String typeNull) emptySchema
          # map (memberReference (Name schema)) (filter (mapsToNode g) (o_Fields oneOfProto))
     \<and> length alternatives = 1 + length (filter (mapsToNode g) (o_Fields oneOfProto))
     \<and> definitionsOf schema' = definitionsOf schema @ definitions
     \<and> length definitions = length (filter (mapsToNode g) (o_Fields oneOfProto))
     \<and> (\<forall>d \<in> set definitions. \<exists>kind value literal.
           Properties (Value d) = Some [kind, value] \<and> Name kind = ''kind''
           \<and> Enumeration (Value kind) = Some [EnumString literal] \<and> Name value = ''value'')"
proof -
  let ?ds = "memberDefinitions g (Name schema) version (o_Fields oneOfProto)"
  let ?p = "oneofProperty g (Name schema) oneOfProto"
  from assms(2) have "Properties (Value schema) \<noteq> None" by simp
  from oneofSchema_closed[OF assms(1) this] obtain l where
    r: "oneofSchema g oneOfProto (logs, schema) = Inr (logs @ l, extendSchema [?p] ?ds schema)"
    by blast
  have d: "\<forall>d \<in> set ?ds. \<exists>kind value literal.
           Properties (Value d) = Some [kind, value] \<and> Name kind = ''kind''
           \<and> Enumeration (Value kind) = Some [EnumString literal] \<and> Name value = ''value''"
    using memberDefinitions_properties buildKindProperty_sel(1,2) by metis
  show ?thesis
    apply (rule exI[of _ "logs @ l"])
    apply (rule exI[of _ "extendSchema [?p] ?ds schema"])
    apply (rule exI[of _ ?p])
    apply (rule exI[of _ "oneofAlternatives g (Name schema) oneOfProto"])
    apply (rule exI[of _ ?ds])
    using r d assms(2)
    apply (simp add: oneofProperty_sel memberDefinitions_length)
    apply (simp add: oneofAlternatives_def)
    done
qed

theorem oneof_union_and_definitions_witness:
  "getSchemaVersion (Value bookDocument) = Inr ''07''
   \<and> Properties (Value bookDocument) = Some []
   \<and> filter (mapsToNode exampleGenerator) (o_Fields contact) = o_Fields contact
   \<and> (\<exists>l schema' property alternatives.
        oneofSchema exampleGenerator contact ([], bookDocument) = Inr (l, schema')
        \<and> Properties (Value schema') = Some [property]
        \<and> OneOf (Value property) = Some alternatives
        \<and> length alternatives = 3)"
proof -
  have m: "filter (mapsToNode exampleGenerator) (o_Fields contact) = o_Fields contact"
    by code_simp
  have n: "length (o_Fields contact) = 2"
    by (simp add: contact_def)
  from oneof_union_and_definitions[OF bookDocument_ready, of exampleGenerator contact "[]"]
  obtain l schema' property alternatives where
    "oneofSchema exampleGenerator contact ([], bookDocument) = Inr (l, schema')"
    "Properties (Value schema') = Some ([] @ [property])"
    "OneOf (Value property) = Some alternatives"
    "length alternatives = 1 + length (filter (mapsToNode exampleGenerator) (o_Fields contact))"
    by blast
  then have "\<exists>l schema' property alternatives.
        oneofSchema exampleGenerator contact ([], bookDocument) = Inr (l, schema')
        \<and> Properties (Value schema') = Some [property]
        \<and> OneOf (Value property) = Some alternatives
        \<and> length alternatives = 3"
    using m n by auto
  with bookDocument_ready m show ?thesis by blast
qed

text \<open>
  C4 as stated fails: a oneof whose one member has the empty well-known type gets a
  union list of one alternative, not two, and no definition.
\<close>

theorem oneof_with_empty_member:
  "length (o_Fields outcome) = 1
   \<and> oneofSchema exampleGenerator outcome ([], bookDocument) =
       Inr ([], NamedSchema ''Book''
         (with_Properties
            [NamedSchema ''outcome''
               (with_Default NullTag
                  (with_OneOf [with_Type (String ''null'') emptySchema] emptySchema))]
            (Value bookDocument)))
   \<and> Definitions (Value bookDocument) = None"
  by code_simp

text \<open>
  C5, as amended. The definition of a member that is mapped to a node, and the
  reference to it in the union list, is named after the owning document and the Go
  name of the member field, which the plugin library supplies with the field, not
  after its declared name.
\<close>

theorem oneof_definition_names:
  assumes "getSchemaVersion (Value schema) = Inr version"
    and "Properties (Value schema) = Some ps"
  shows "\<exists>l schema' property alternatives.
     oneofSchema g oneOfProto (logs, schema) = Inr (l, schema')
     \<and> map Name (drop (length (definitionsOf schema)) (definitionsOf schema'))
         = map (\<lambda>f. Name schema @ ''_'' @ f_GoName f) (filter (mapsToNode g) (o_Fields oneOfProto))
     \<and> Properties (Value schema') = Some (ps @ [property])
     \<and> OneOf (Value property) = Some alternatives
     \<and> map Ref (tl alternatives)
         = map (\<lambda>f. Some (''#/definitions/'' @ Name schema @ ''_'' @ f_GoName f))
             (filter (mapsToNode g) (o_Fields oneOfProto))"
proof -
  let ?ds = "memberDefinitions g (Name schema) version (o_Fields oneOfProto)"
  let ?p = "oneofProperty g (Name schema) oneOfProto"
  from assms(2) have "Properties (Value schema) \<noteq> None" by simp
  from oneofSchema_closed[OF assms(1) this] obtain l where
    r: "oneofSchema g oneOfProto (logs, schema) = Inr (logs @ l, extendSchema [?p] ?ds schema)"
    by blast
  have n: "map Name ?ds
      = map (\<lambda>f. Name schema @ ''_'' @ f_GoName f) (filter (mapsToNode g) (o_Fields oneOfProto))"
    by (simp add: memberDefinitions_names memberName_def[abs_def])
  have a: "map Ref (tl (oneofAlternatives g (Name schema) oneOfProto))
      = map (\<lambda>f. Some (''#/definitions/'' @ Name schema @ ''_'' @ f_GoName f))
             (filter (mapsToNode g) (o_Fields oneOfProto))"
    by (simp add: oneofAlternatives_def memberReference_def memberName_def with_defs
        emptySchema_def)
  show ?thesis
    apply (rule exI[of _ "logs @ l"])
    apply (rule exI[of _ "extendSchema [?p] ?ds schema"])
    apply (rule exI[of _ ?p])
    apply (rule exI[of _ "oneofAlternatives g (Name schema) oneOfProto"])
    using r n a assms(2)
    apply (simp add: oneofProperty_sel)
    done
qed

theorem oneof_definition_names_witness:
  "getSchemaVersion (Value bookDocument) = Inr ''07''
   \<and> Properties (Value bookDocument) = Some []
   \<and> (\<exists>l schema'.
        oneofSchema exampleGenerator contact ([], bookDocument) = Inr (l, schema')
        \<and> map Name (definitionsOf schema') = [''Book_Email'', ''Book_Phone''])"
proof -
  have m: "map (\<lambda>f. Name bookDocument @ ''_'' @ f_GoName f)
        (filter (mapsToNode exampleGenerator) (o_Fields contact)) = [''Book_Email'', ''Book_Phone'']"
    by code_simp
  have d: "definitionsOf bookDocument = []"
    by code_simp
  from oneof_definition_names[OF bookDocument_ready, of exampleGenerator contact "[]"]
  obtain l schema' where
    "oneofSchema exampleGenerator contact ([], bookDocument) = Inr (l, schema')"
    "map Name (drop (length (definitionsOf bookDocument)) (definitionsOf schema'))
         = map (\<lambda>f. Name bookDocument @ ''_'' @ f_GoName f)
             (filter (mapsToNode exampleGenerator) (o_Fields contact))"
    by blast
  then have "\<exists>l schema'.
        oneofSchema exampleGenerator contact ([], bookDocument) = Inr (l, schema')
        \<and> map Name (definitionsOf schema') = [''Book_Email'', ''Book_Phone'']"
    using m d by auto
  with bookDocument_ready show ?thesis by blast
qed

text \<open>
  C5 as stated fails: the members declared as \<^verbatim>\<open>email\<close> and \<^verbatim>\<open>phone\<close> on the document
  \<^verbatim>\<open>Book\<close> yield the definitions \<^verbatim>\<open>Book_Email\<close> and \<^verbatim>\<open>Book_Phone\<close>, not \<^verbatim>\<open>Book_email\<close> and
  \<^verbatim>\<open>Book_phone\<close>.
\<close>

theorem oneof_definition_go_names:
  "map (fd_Name \<circ> f_Desc) (o_Fields contact) = [''email'', ''phone'']
   \<and> map_sum id (map Name \<circ> definitionsOf \<circ> snd)
         (oneofSchema exampleGenerator contact ([], bookDocument))
     = Inr [''Book_Email'', ''Book_Phone'']
   \<and> map_sum id (Properties \<circ> Value \<circ> snd)
         (oneofSchema exampleGenerator contact ([], bookDocument))
     = Inr (Some [NamedSchema ''contact''
                    (with_Default NullTag
                       (with_OneOf [with_Type (String ''null'') emptySchema,
                                    with_Ref ''#/definitions/Book_Email'' emptySchema,
                                    with_Ref ''#/definitions/Book_Phone'' emptySchema]
                          emptySchema))])"
  by code_simp

text \<open>
  C6. The draft version string of a configuration is what the generator reads from the
  configured \<^verbatim>\<open>$schema\<close> value: for a value of the form
  \<^verbatim>\<open>http://json-schema.org/draft-D/schema...\<close> (also with \<^verbatim>\<open>https\<close>, also with a slash
  before D) it is D, and it is empty unless the value has the form of the pattern of
  the source: somewhere in it \<^verbatim>\<open>http\<close>, any number of \<^verbatim>\<open>s\<close>, \<^verbatim>\<open>://json-schema\<close>, one
  character other than a line feed, \<^verbatim>\<open>org/draft\<close>, a slash or a dash, the version
  without a slash, and \<^verbatim>\<open>/schema\<close>. On a document that carries the configured value,
  as the document of a message does from its setup through every extension by the
  loops, the node of a field has the read-only mark exactly when that string is
  lexically at least \<^verbatim>\<open>07\<close> and the field is annotated as output only; likewise the
  write-only mark and the annotation input only. A mark that is there is true. The
  comparison is the lexical order of the bytes.
\<close>

theorem readOnly_writeOnly_iff:
  assumes "Schema' (Value schema) = Some (Version (conf g))"
    and "namedSchemaForField g field schema isValueProp = Inr (l, Some named)"
  shows "ReadOnly (Value named) =
           (if string_ge (draftVersion g) ''07''
               \<and> OUTPUT_ONLY \<in> set (fd_Behaviors (f_Desc field))
            then Some True else None)
       \<and> WriteOnly (Value named) =
           (if string_ge (draftVersion g) ''07''
               \<and> INPUT_ONLY \<in> set (fd_Behaviors (f_Desc field))
            then Some True else None)
       \<and> (\<forall>scheme sep d rest.
             (scheme = ''http'' \<or> scheme = ''https'') \<and> (sep = CHR ''/'' \<or> sep = CHR ''-'')
             \<and> d \<noteq> [] \<and> CHR ''/'' \<notin> set d
             \<and> Version (conf g) = scheme @ ''://json-schema.org/draft'' @ [sep] @ d @ ''/schema'' @ rest
             \<longrightarrow> draftVersion g = d)
       \<and> (draftVersion g \<noteq> [] \<longrightarrow>
            (\<exists>pre n c sep rest.
               Version (conf g) = pre @ ''http'' @ replicate n (CHR ''s'') @ ''://json-schema'' @ c
                 @ ''org/draft'' @ [sep] @ draftVersion g @ ''/schema'' @ rest
               \<and> c \<noteq> [] \<and> length c \<le> 4 \<and> hd c \<noteq> CHR 0x0A
               \<and> (sep = CHR ''/'' \<or> sep = CHR ''-'') \<and> CHR ''/'' \<notin> set (draftVersion g)))
       \<and> (\<forall>v w. string_ge v w =
             (v = w \<or> (w, v) \<in> lexord {(x, y). (of_char x :: nat) < of_char y}))
       \<and> (\<forall>ps ds name comments.
             Schema' (Value (extendSchema ps ds (setupSchemaForMessage g name comments)))
               = Some (Version (conf g)))"
proof (intro conjI allI impI)
  have v: "getSchemaVersion (Value schema) = Inr (draftVersion g)"
    using assms(1) by (rule getSchemaVersion_configured)
  show "ReadOnly (Value named) =
           (if string_ge (draftVersion g) ''07''
               \<and> OUTPUT_ONLY \<in> set (fd_Behaviors (f_Desc field))
            then Some True else None)"
    using namedSchemaForField_marks[OF v assms(2)] by blast
  show "WriteOnly (Value named) =
           (if string_ge (draftVersion g) ''07''
               \<and> INPUT_ONLY \<in> set (fd_Behaviors (f_Desc field))
            then Some True else None)"
    using namedSchemaForField_marks[OF v assms(2)] by blast
next
  fix scheme sep d rest
  assume a: "(scheme = ''http'' \<or> scheme = ''https'') \<and> (sep = CHR ''/'' \<or> sep = CHR ''-'')
             \<and> d \<noteq> [] \<and> CHR ''/'' \<notin> set d
             \<and> Version (conf g) = scheme @ ''://json-schema.org/draft'' @ [sep] @ d @ ''/schema'' @ rest"
  then have "FindStringSubmatch_version (Version (conf g)) = Some d"
    using FindStringSubmatch_version_draft[of scheme sep d rest] by simp
  then show "draftVersion g = d"
    by (simp add: draftVersion_def)
next
  assume "draftVersion g \<noteq> []"
  then show "\<exists>pre n c sep rest.
               Version (conf g) = pre @ ''http'' @ replicate n (CHR ''s'') @ ''://json-schema'' @ c
                 @ ''org/draft'' @ [sep] @ draftVersion g @ ''/schema'' @ rest
               \<and> c \<noteq> [] \<and> length c \<le> 4 \<and> hd c \<noteq> CHR 0x0A
               \<and> (sep = CHR ''/'' \<or> sep = CHR ''-'') \<and> CHR ''/'' \<notin> set (draftVersion g)"
    by (rule draftVersion_form)
next
  fix v w
  show "string_ge v w =
          (v = w \<or> (w, v) \<in> lexord {(x, y). (of_char x :: nat) < of_char y})"
    by (rule string_ge_lexord)
next
  fix ps ds name comments
  show "Schema' (Value (extendSchema ps ds (setupSchemaForMessage g name comments)))
          = Some (Version (conf g))"
    by simp
qed

theorem readOnly_writeOnly_witness:
  "Schema' (Value bookDocument) = Some (Version (conf exampleGenerator))
   \<and> Version (conf exampleGenerator) = ''http://json-schema.org/draft-07/schema#''
   \<and> draftVersion exampleGenerator = ''07''
   \<and> namedSchemaForField exampleGenerator authorField bookDocument False =
     Inr ([], Some (NamedSchema ''author''
       (with_Description ''The author.'' (with_ReadOnly True (with_Ref ''Author.json'' emptySchema)))))
   \<and> ReadOnly (with_Description ''The author.'' (with_ReadOnly True (with_Ref ''Author.json'' emptySchema)))
       = Some True
   \<and> WriteOnly (with_Description ''The author.'' (with_ReadOnly True (with_Ref ''Author.json'' emptySchema)))
       = None
   \<and> Schema' (Value draft04Document) = Some (Version (conf draft04Generator))
   \<and> Version (conf draft04Generator) = ''http://json-schema.org/draft-04/schema#''
   \<and> draftVersion draft04Generator = ''04''
   \<and> namedSchemaForField draft04Generator authorField draft04Document False =
     Inr ([], Some (NamedSchema ''author''
       (with_Description ''The author.'' (with_Ref ''Author.json'' emptySchema))))
   \<and> ReadOnly (with_Description ''The author.'' (with_Ref ''Author.json'' emptySchema)) = None
   \<and> WriteOnly (with_Description ''The author.'' (with_Ref ''Author.json'' emptySchema)) = None"
proof -
  have d7: "Schema' (Value bookDocument) = Some (Version (conf exampleGenerator))"
    by code_simp
  have u7: "Version (conf exampleGenerator) = ''http://json-schema.org/draft-07/schema#''"
    by code_simp
  have n7: "namedSchemaForField exampleGenerator authorField bookDocument False =
     Inr ([], Some (NamedSchema ''author''
       (with_Description ''The author.'' (with_ReadOnly True (with_Ref ''Author.json'' emptySchema)))))"
    by code_simp
  have d4: "Schema' (Value draft04Document) = Some (Version (conf draft04Generator))"
    by code_simp
  have u4: "Version (conf draft04Generator) = ''http://json-schema.org/draft-04/schema#''"
    by code_simp
  have n4: "namedSchemaForField draft04Generator authorField draft04Document False =
     Inr ([], Some (NamedSchema ''author''
       (with_Description ''The author.'' (with_Ref ''Author.json'' emptySchema))))"
    by code_simp
  have b: "fd_Behaviors (f_Desc authorField) = [OUTPUT_ONLY]"
    by (simp add: authorField_def)
  note t7 = readOnly_writeOnly_iff[OF d7 n7]
  note t4 = readOnly_writeOnly_iff[OF d4 n4]
  have v7: "draftVersion exampleGenerator = ''07''"
    using t7[THEN conjunct2, THEN conjunct2, THEN conjunct1, rule_format,
        of "''http''" "CHR ''-''" "''07''" "''#''"] u7
    by simp
  have v4: "draftVersion draft04Generator = ''04''"
    using t4[THEN conjunct2, THEN conjunct2, THEN conjunct1, rule_format,
        of "''http''" "CHR ''-''" "''04''" "''#''"] u4
    by simp
  have r7: "ReadOnly (with_Description ''The author.'' (with_ReadOnly True (with_Ref ''Author.json'' emptySchema)))
       = Some True"
    and w7: "WriteOnly (with_Description ''The author.'' (with_ReadOnly True (with_Ref ''Author.json'' emptySchema)))
       = None"
    using t7[THEN conjunct1] t7[THEN conjunct2, THEN conjunct1] v7 b by simp_all
  have r4: "ReadOnly (with_Description ''The author.'' (with_Ref ''Author.json'' emptySchema)) = None"
    and w4: "WriteOnly (with_Description ''The author.'' (with_Ref ''Author.json'' emptySchema)) = None"
    using t4[THEN conjunct1] t4[THEN conjunct2, THEN conjunct1] v4 b by simp_all
  from d7 u7 v7 n7 r7 w7 d4 u4 v4 n4 r4 w4 show ?thesis
    by (intro conjI)
qed

text \<open>
  C7, as amended. A field of the kind enum that is not repeated is mapped to the node
  \<open>enumSchema\<close>; a repeated one is mapped to a node of the type array, with an empty
  array as default, whose items are that node. In the mode \<^verbatim>\<open>integer\<close>, and under every
  configured enum type other than \<^verbatim>\<open>string\<close>, \<open>enumSchema\<close> has the type integer and the
  default 0. In the mode \<^verbatim>\<open>string\<close> it has the type string, its enumeration lists the
  names of all declared values in their order, and its default is the first of them
  (none when the enum declares no value).
\<close>

theorem enum_field_node:
  "schemaOrReferenceForField g (FieldDescriptor name jsonName (EnumKind values) False None behaviors)
     = ([], Some (enumSchema g values))
   \<and> (\<exists>array.
        schemaOrReferenceForField g (FieldDescriptor name jsonName (EnumKind values) True None behaviors)
          = ([], Some array)
        \<and> Type array = Some (String ''array'')
        \<and> Default array = Some (ArrayValue [])
        \<and> Items array = Some (Some (enumSchema g values)))
   \<and> (EnumType (conf g) \<noteq> Some ''string'' \<longrightarrow>
        Type (enumSchema g values) = Some (String ''integer'')
        \<and> Default (enumSchema g values) = Some (Int64Value 0)
        \<and> Enumeration (enumSchema g values) = None)
   \<and> (EnumType (conf g) = Some ''string'' \<longrightarrow>
        Type (enumSchema g values) = Some (String ''string'')
        \<and> Enumeration (enumSchema g values) = Some (map EnumString values)
        \<and> Default (enumSchema g values) =
            (case values of [] \<Rightarrow> None | first # later \<Rightarrow> Some (StringValue first)))"
proof (intro conjI impI)
  show "schemaOrReferenceForField g (FieldDescriptor name jsonName (EnumKind values) False None behaviors)
     = ([], Some (enumSchema g values))"
    by (simp add: listOrKindSchema_def)
  show "\<exists>array.
        schemaOrReferenceForField g (FieldDescriptor name jsonName (EnumKind values) True None behaviors)
          = ([], Some array)
        \<and> Type array = Some (String ''array'')
        \<and> Default array = Some (ArrayValue [])
        \<and> Items array = Some (Some (enumSchema g values))"
    by (simp add: listOrKindSchema_def with_defs emptySchema_def emptyArray_def)
next
  assume "EnumType (conf g) \<noteq> Some ''string''"
  then have e: "enumSchema g values =
      with_Default (Int64Value emptyInt64)
        (with_Type (String typeInteger) (with_Format formatEnum emptySchema))"
    by (simp add: enumSchema_def Let_def typeString_def)
  show "Type (enumSchema g values) = Some (String ''integer'')"
    "Default (enumSchema g values) = Some (Int64Value 0)"
    "Enumeration (enumSchema g values) = None"
    unfolding e
    by (simp_all add: with_defs emptySchema_def typeInteger_def emptyInt64_def)
next
  assume s: "EnumType (conf g) = Some ''string''"
  show "Type (enumSchema g values) = Some (String ''string'')"
    "Enumeration (enumSchema g values) = Some (map EnumString values)"
    "Default (enumSchema g values) =
       (case values of [] \<Rightarrow> None | first # later \<Rightarrow> Some (StringValue first))"
    using s
    by (simp_all add: enumSchema_def Let_def typeString_def with_defs emptySchema_def
        split: list.splits)
qed

theorem enum_field_node_witness:
  "EnumType (conf exampleGenerator) \<noteq> Some ''string''
   \<and> schemaOrReferenceForField exampleGenerator
        (FieldDescriptor ''color'' ''color'' (EnumKind [''COLOR_UNSPECIFIED'', ''RED'', ''GREEN'']) False None [])
       = ([], Some (with_Default (Int64Value 0)
                     (with_Type (String ''integer'') (with_Format ''enum'' emptySchema))))
   \<and> Type (enumSchema exampleGenerator [''COLOR_UNSPECIFIED'', ''RED'', ''GREEN'']) = Some (String ''integer'')
   \<and> Default (enumSchema exampleGenerator [''COLOR_UNSPECIFIED'', ''RED'', ''GREEN'']) = Some (Int64Value 0)
   \<and> EnumType (conf draft04Generator) = Some ''string''
   \<and> schemaOrReferenceForField draft04Generator
        (FieldDescriptor ''color'' ''color'' (EnumKind [''COLOR_UNSPECIFIED'', ''RED'', ''GREEN'']) False None [])
       = ([], Some (with_Default (StringValue ''COLOR_UNSPECIFIED'')
                     (with_Enumeration
                        [EnumString ''COLOR_UNSPECIFIED'', EnumString ''RED'', EnumString ''GREEN'']
                        (with_Type (String ''string'') (with_Format ''enum'' emptySchema)))))
   \<and> Type (enumSchema draft04Generator [''COLOR_UNSPECIFIED'', ''RED'', ''GREEN'']) = Some (String ''string'')
   \<and> Enumeration (enumSchema draft04Generator [''COLOR_UNSPECIFIED'', ''RED'', ''GREEN''])
       = Some [EnumString ''COLOR_UNSPECIFIED'', EnumString ''RED'', EnumString ''GREEN'']
   \<and> Default (enumSchema draft04Generator [''COLOR_UNSPECIFIED'', ''RED'', ''GREEN''])
       = Some (StringValue ''COLOR_UNSPECIFIED'')"
proof -
  have i: "EnumType (conf exampleGenerator) \<noteq> Some ''string''"
    by (simp add: exampleGenerator_def NewJSONSchemaGenerator_def)
  have s: "EnumType (conf draft04Generator) = Some ''string''"
    by (simp add: draft04Generator_def NewJSONSchemaGenerator_def)
  have ei: "enumSchema exampleGenerator [''COLOR_UNSPECIFIED'', ''RED'', ''GREEN'']
      = with_Default (Int64Value 0)
          (with_Type (String ''integer'') (with_Format ''enum'' emptySchema))"
    by code_simp
  have es: "enumSchema draft04Generator [''COLOR_UNSPECIFIED'', ''RED'', ''GREEN'']
      = with_Default (StringValue ''COLOR_UNSPECIFIED'')
                     (with_Enumeration
                        [EnumString ''COLOR_UNSPECIFIED'', EnumString ''RED'', EnumString ''GREEN'']
                        (with_Type (String ''string'') (with_Format ''enum'' emptySchema)))"
    by code_simp
  from enum_field_node[of exampleGenerator "''color''" "''color''"
        "[''COLOR_UNSPECIFIED'', ''RED'', ''GREEN'']" "[]"]
    enum_field_node[of draft04Generator "''color''" "''color''"
        "[''COLOR_UNSPECIFIED'', ''RED'', ''GREEN'']" "[]"] i s
  show ?thesis
    unfolding ei es by simp
qed

text \<open>
  C7 as stated fails for a repeated field: in the mode \<^verbatim>\<open>integer\<close> the node of a repeated
  enum field has the type array and the default of an empty array, not the type
  integer and the default 0, which are those of its items.
\<close>

theorem repeated_enum_field_is_array:
  "EnumType (conf exampleGenerator) = Some ''integer''
   \<and> schemaOrReferenceForField exampleGenerator
        (FieldDescriptor ''colors'' ''colors'' (EnumKind [''COLOR_UNSPECIFIED'', ''RED'']) True None [])
     = ([], Some (with_Default (ArrayValue [])
                   (with_Items
                      (Some (with_Default (Int64Value 0)
                              (with_Type (String ''integer'') (with_Format ''enum'' emptySchema))))
                      (with_Type (String ''array'') emptySchema))))
   \<and> Type (with_Default (ArrayValue [])
                   (with_Items
                      (Some (with_Default (Int64Value 0)
                              (with_Type (String ''integer'') (with_Format ''enum'' emptySchema))))
                      (with_Type (String ''array'') emptySchema)))
     = Some (String ''array'')
   \<and> Default (with_Default (ArrayValue [])
                   (with_Items
                      (Some (with_Default (Int64Value 0)
                              (with_Type (String ''integer'') (with_Format ''enum'' emptySchema))))
                      (with_Type (String ''array'') emptySchema)))
     = Some (ArrayValue [])"
  by code_simp

text \<open>
  C8 fails on the code for a repeated field. A repeated group, the one kind the
  switch does not know, is logged and then wrapped as a list all the same: the mapping
  returns an array node without items, and the document of the message has the
  property.
\<close>

theorem repeated_group_field_is_kept:
  "schemaOrReferenceForField exampleGenerator (f_Desc itemsField) =
     ([''(TODO) Unsupported field type: lib.Book.Items''],
      Some (with_Default (ArrayValue [])
             (with_Items None (with_Type (String ''array'') emptySchema))))
   \<and> map_sum id (map Name \<circ> snd) (buildSchemasFromMessages exampleGenerator [bookWithGroup])
     = Inr [''Book_Items'', ''Book'']
   \<and> map_sum id (map (map_option (map Name) \<circ> Properties \<circ> Value) \<circ> snd)
         (buildSchemasFromMessages exampleGenerator [bookWithGroup])
     = Inr [Some [], Some [''items'']]"
  by code_simp

text \<open>
  C9. The builder returns, without an error, the documents in depth-first order: for
  every message the documents of its nested messages come before its own document
  (the entry type of a map has none), and in every document the properties of the
  oneofs come before the properties of the plain fields.
\<close>

theorem buildSchemasFromMessages_depth_first:
  "(\<exists>l. buildSchemasFromMessages g messages = Inr (l, concat (map (depthFirst g) messages)))
   \<and> depthFirst g message =
       concat (map (depthFirst g) (m_Messages message))
         @ (if md_IsMapEntry (m_Desc message) then [] else [messageDocument g message])
   \<and> Properties (Value (messageDocument g message)) =
       Some (map (oneofProperty g (messageDefinitionName (m_Desc message))) (m_Oneofs message)
             @ plainProperties g (draftVersion g) (m_Fields message))"
  using buildSchemasFromMessages_closed(1)[of g messages] depthFirst_unfold[of g message]
    messageDocument_Properties[of g message]
  by blast

theorem buildSchemasFromMessages_depth_first_witness:
  "(\<exists>l. buildSchemasFromMessages exampleGenerator [library]
        = Inr (l, concat (map (depthFirst exampleGenerator) [library])))
   \<and> map Name (concat (map (depthFirst exampleGenerator) [library])) = [''Book_Chapter'', ''Book'']
   \<and> map_option (map Name) (Properties (Value (messageDocument exampleGenerator library)))
       = Some [''contact'', ''title'', ''author'']"
proof -
  have a: "map Name (concat (map (depthFirst exampleGenerator) [library])) = [''Book_Chapter'', ''Book'']"
    by code_simp
  have b: "map_option (map Name) (Properties (Value (messageDocument exampleGenerator library)))
       = Some [''contact'', ''title'', ''author'']"
    by code_simp
  from buildSchemasFromMessages_depth_first[of exampleGenerator "[library]" library] a b
  show ?thesis by blast
qed

text \<open>
  C10. Every property that the loop over the oneofs adds has the default null, one
  property for each oneof in order; for a oneof none of whose members is mapped to a
  node, the union list of the property is the null type alone.
\<close>

theorem oneof_property_default_null:
  assumes "getSchemaVersion (Value schema) = Inr version"
    and "Properties (Value schema) = Some ps"
  shows "\<exists>l schema' properties.
     addOneofFieldsToSchema g oneofs (logs, schema) = Inr (l, schema')
     \<and> Properties (Value schema') = Some (ps @ properties)
     \<and> list_all2
          (\<lambda>oneOfProto property.
             Default (Value property) = Some NullTag
             \<and> (filter (mapsToNode g) (o_Fields oneOfProto) = [] \<longrightarrow>
                  OneOf (Value property) = Some [with_Type (String typeNull) emptySchema]))
          oneofs properties"
proof -
  let ?ps = "map (oneofProperty g (Name schema)) oneofs"
  let ?ds = "concat (map (\<lambda>oneOfProto. memberDefinitions g (Name schema) version (o_Fields oneOfProto))
               oneofs)"
  from assms(2) have "Properties (Value schema) \<noteq> None" by simp
  from addOneofFieldsToSchema_closed[OF assms(1) this] obtain l where
    r: "addOneofFieldsToSchema g oneofs (logs, schema) = Inr (logs @ l, extendSchema ?ps ?ds schema)"
    by blast
  have "list_all2
          (\<lambda>oneOfProto property.
             Default (Value property) = Some NullTag
             \<and> (filter (mapsToNode g) (o_Fields oneOfProto) = [] \<longrightarrow>
                  OneOf (Value property) = Some [with_Type (String typeNull) emptySchema]))
          oneofs ?ps"
    by (simp add: list_all2_map2 list_all2_same oneofProperty_sel oneofAlternatives_def)
  with r assms(2) show ?thesis
    by (intro exI[of _ "logs @ l"] exI[of _ "extendSchema ?ps ?ds schema"] exI[of _ ?ps]) simp
qed

theorem oneof_property_default_null_witness:
  "getSchemaVersion (Value bookDocument) = Inr ''07''
   \<and> Properties (Value bookDocument) = Some []
   \<and> (\<exists>l schema' first second.
        addOneofFieldsToSchema exampleGenerator [contact, outcome] ([], bookDocument) = Inr (l, schema')
        \<and> Properties (Value schema') = Some [first, second]
        \<and> Default (Value first) = Some NullTag
        \<and> Default (Value second) = Some NullTag
        \<and> OneOf (Value second) = Some [with_Type (String typeNull) emptySchema])"
proof -
  have m: "filter (mapsToNode exampleGenerator) (o_Fields outcome) = []"
    by code_simp
  from oneof_property_default_null[OF bookDocument_ready, of exampleGenerator "[contact, outcome]" "[]"]
  obtain l schema' properties where
    r: "addOneofFieldsToSchema exampleGenerator [contact, outcome] ([], bookDocument) = Inr (l, schema')"
    "Properties (Value schema') = Some ([] @ properties)"
    and a: "list_all2
          (\<lambda>oneOfProto property.
             Default (Value property) = Some NullTag
             \<and> (filter (mapsToNode exampleGenerator) (o_Fields oneOfProto) = [] \<longrightarrow>
                  OneOf (Value property) = Some [with_Type (String typeNull) emptySchema]))
          [contact, outcome] properties"
    by blast
  from a obtain first second where "properties = [first, second]"
    "Default (Value first) = Some NullTag" "Default (Value second) = Some NullTag"
    "OneOf (Value second) = Some [with_Type (String typeNull) emptySchema]"
    using m by (auto simp: list_all2_Cons1)
  with r have "\<exists>l schema' first second.
        addOneofFieldsToSchema exampleGenerator [contact, outcome] ([], bookDocument) = Inr (l, schema')
        \<and> Properties (Value schema') = Some [first, second]
        \<and> Default (Value first) = Some NullTag
        \<and> Default (Value second) = Some NullTag
        \<and> OneOf (Value second) = Some [with_Type (String typeNull) emptySchema]"
    by auto
  with bookDocument_ready show ?thesis by blast
qed

end
